theory Spec2Isabelle
  imports Main "HOL-Library.AList"
begin

section \<open>Python errors and effectful computations\<close>

text \<open>
  The exceptions that the code of \<^verbatim>\<open>phantom/faces/faces.py\<close> raises, or that the
  builtins and libraries it calls raise. \<open>KeyError\<close> carries its message, since
  \<^verbatim>\<open>_LazyStore.get\<close> raises one with a fixed text. \<open>ExternalError\<close> stands for any
  other exception of an external library (a \<^verbatim>\<open>RuntimeError\<close> of dlib, say).
\<close>

datatype py_error =
    KeyError string
  | IndexError
  | TypeError
  | ValueError
  | AttributeError
  | FileNotFoundError
  | PermissionError
  | PickleError
  | ExternalError string

text \<open>\<^verbatim>\<open>except KeyError\<close> catches exactly the first constructor.\<close>

fun is_KeyError :: "py_error \<Rightarrow> bool" where
  "is_KeyError (KeyError m) = True"
| "is_KeyError e = False"

text \<open>Python's \<^verbatim>\<open>LookupError\<close> is the common base of \<^verbatim>\<open>KeyError\<close> and \<^verbatim>\<open>IndexError\<close>.\<close>

fun is_LookupError :: "py_error \<Rightarrow> bool" where
  "is_LookupError (KeyError m) = True"
| "is_LookupError IndexError = True"
| "is_LookupError e = False"

text \<open>
  A computation over a state \<open>'s\<close> either raises (\<open>Inl\<close>) or returns (\<open>Inr\<close>), and
  leaves a state behind in both cases: what was mutated before a \<^verbatim>\<open>raise\<close> stays mutated.
\<close>

type_synonym ('s, 'a) prog = "'s \<Rightarrow> (py_error + 'a) \<times> 's"

definition ret :: "'a \<Rightarrow> ('s, 'a) prog" where
  "ret x s = (Inr x, s)"

definition raise :: "py_error \<Rightarrow> ('s, 'a) prog" where
  "raise e s = (Inl e, s)"

definition bindE :: "('s, 'a) prog \<Rightarrow> ('a \<Rightarrow> ('s, 'b) prog) \<Rightarrow> ('s, 'b) prog" where
  "bindE m f s = (case m s of (Inl e, s') \<Rightarrow> (Inl e, s') | (Inr x, s') \<Rightarrow> f x s')"

text \<open>
  A list comprehension \<^verbatim>\<open>[f(x) for x in xs]\<close>: the calls run left to right and the
  first exception ends the comprehension.
\<close>

fun mapM :: "('a \<Rightarrow> ('s, 'b) prog) \<Rightarrow> 'a list \<Rightarrow> ('s, 'b list) prog" where
  "mapM f [] = ret []"
| "mapM f (x # xs) = bindE (f x) (\<lambda>y. bindE (mapM f xs) (\<lambda>ys. ret (y # ys)))"

section \<open>The lazy store\<close>

type_synonym key = string

text \<open>
  The external calls the module makes are recorded in a trace, a ghost variable that no
  function reads: the run of a registered factory, and the application of a detector, a
  shape predictor or an encoder to an image.
\<close>

datatype rectangle = Rectangle (left: int) (top: int) (right: int) (bottom: int)

datatype event =
    FactoryCall key
  | DetectorCall int
  | PredictorCall rectangle
  | EncoderCall int

text \<open>
  \<^verbatim>\<open>register\<close> stores the triple \<^verbatim>\<open>(initer, args, kwargs)\<close>. A factory runs in the
  outside world \<open>'w\<close> (it reads model files), which it may change, and raises or returns
  an object \<open>'v\<close>.
\<close>

type_synonym ('a, 'v, 'w) initer =
  "'a list \<Rightarrow> (string \<times> 'a) list \<Rightarrow> 'w \<Rightarrow> (py_error + 'v) \<times> 'w"

type_synonym ('a, 'v, 'w) recipe =
  "('a, 'v, 'w) initer \<times> 'a list \<times> (string \<times> 'a) list"

record ('a, 'v, 'w) LazyStore =
  dict :: "key \<rightharpoonup> 'v"
  reg :: "key \<rightharpoonup> ('a, 'v, 'w) recipe"

text \<open>\<^verbatim>\<open>_LazyStore.__init__(self, d=None, r=None)\<close>\<close>

definition LazyStore_init ::
  "(key \<rightharpoonup> 'v) option \<Rightarrow> (key \<rightharpoonup> ('a, 'v, 'w) recipe) option \<Rightarrow> ('a, 'v, 'w) LazyStore" where
  "LazyStore_init d r =
     \<lparr>dict = (case d of None \<Rightarrow> Map.empty | Some d' \<Rightarrow> d'),
      reg = (case r of None \<Rightarrow> Map.empty | Some r' \<Rightarrow> r')\<rparr>"

text \<open>\<^verbatim>\<open>_LazyStore.register(self, key, initer, *args, **kwargs)\<close>\<close>

definition register ::
  "key \<Rightarrow> ('a, 'v, 'w) initer \<Rightarrow> 'a list \<Rightarrow> (string \<times> 'a) list \<Rightarrow>
   ('a, 'v, 'w) LazyStore \<Rightarrow> ('a, 'v, 'w) LazyStore" where
  "register k initer args kwargs self = self\<lparr>reg := (reg self)(k \<mapsto> (initer, args, kwargs))\<rparr>"

text \<open>
  \<^verbatim>\<open>_LazyStore.get(self, key)\<close>. A cached object is returned at once. Otherwise the
  recipe is looked up and run inside one \<^verbatim>\<open>try\<close>: a \<^verbatim>\<open>KeyError\<close> of the lookup, and
  one raised by the factory itself, both become
  \<^verbatim>\<open>KeyError("unregistered lazy key.")\<close>; any other exception of the factory
  propagates. Only a returned object is stored in \<^verbatim>\<open>self.dict\<close>.
\<close>

type_synonym ('a, 'v, 'w) state = "('a, 'v, 'w) LazyStore \<times> 'w \<times> event list"

definition get :: "key \<Rightarrow> (('a, 'v, 'w) state, 'v) prog" where
  "get k = (\<lambda>(self, w, tr).
     (case dict self k of
        Some v \<Rightarrow> (Inr v, (self, w, tr))
      | None \<Rightarrow>
          (case reg self k of
             None \<Rightarrow> (Inl (KeyError ''unregistered lazy key.''), (self, w, tr))
           | Some (func, args, kwargs) \<Rightarrow>
               (case func args kwargs w of
                  (Inl e, w') \<Rightarrow>
                    (Inl (if is_KeyError e then KeyError ''unregistered lazy key.'' else e),
                     (self, w', tr @ [FactoryCall k]))
                | (Inr store, w') \<Rightarrow>
                    (Inr store,
                     (self\<lparr>dict := (dict self)(k \<mapsto> store)\<rparr>, w', tr @ [FactoryCall k]))))))"

text \<open>
  A caller that issues \<^verbatim>\<open>get\<close> for each key of a list in turn, catching what a call
  raises, and collects the outcomes.
\<close>

fun gets :: "key list \<Rightarrow> ('a, 'v, 'w) state \<Rightarrow> (py_error + 'v) list \<times> ('a, 'v, 'w) state" where
  "gets [] s = ([], s)"
| "gets (k # ks) s =
     (case get k s of (r, s') \<Rightarrow> (case gets ks s' of (rs, s'') \<Rightarrow> (r # rs, s'')))"

text \<open>
  Every store that starts with an empty cache (\<^verbatim>\<open>_LazyStore()\<close>, or one given
  recipes only) and is used through \<^verbatim>\<open>register\<close> and \<^verbatim>\<open>get\<close> caches objects of
  registered keys only.
\<close>

definition cache_of_registered :: "('a, 'v, 'w) LazyStore \<Rightarrow> bool" where
  "cache_of_registered self = (dom (dict self) \<subseteq> dom (reg self))"

section \<open>The external libraries and the module's lazy store\<close>

text \<open>
  What the module takes from dlib, \<^verbatim>\<open>pkg_resources\<close>, \<^verbatim>\<open>pickle\<close> and the file
  system is a parameter of the model. The objects \<open>'v\<close> that the factories build are
  opaque; what calling one does is given by \<open>detector_call\<close> (a face detector applied to
  an image and an upsampling count), \<open>predictor_call\<close> (a shape predictor applied to an
  image and a rectangle, which yields a \<^verbatim>\<open>full_object_detection\<close> \<open>'fod\<close>), \<open>parts\<close>
  (the \<^verbatim>\<open>(p.x, p.y)\<close> of its parts) and \<open>compute_face_descriptor\<close>, whose result
  stands for the \<^verbatim>\<open>np.array\<close> made of it. Each call may raise.
\<close>

type_synonym point = "int \<times> int"

record ('v, 'w, 'img, 'fod, 'enc) extern =
  resource_filename :: "string \<Rightarrow> string \<Rightarrow> string"
  dlib_version :: string
  get_frontal_face_detector :: "(string, 'v, 'w) initer"
  face_recognition_model_v1 :: "(string, 'v, 'w) initer"
  shape_predictor :: "(string, 'v, 'w) initer"
  read_binary :: "string \<Rightarrow> 'w \<Rightarrow> py_error + string"
  pickle_load_object :: "string \<Rightarrow> py_error + 'v"
  detector_call :: "'v \<Rightarrow> 'img \<Rightarrow> int \<Rightarrow> py_error + rectangle list"
  predictor_call :: "'v \<Rightarrow> 'img \<Rightarrow> rectangle \<Rightarrow> py_error + 'fod"
  parts :: "'fod \<Rightarrow> point list"
  compute_face_descriptor :: "'v \<Rightarrow> 'img \<Rightarrow> 'fod \<Rightarrow> int \<Rightarrow> py_error + 'enc"

text \<open>
  \<^verbatim>\<open>_unpickle(path)\<close>, as the factory of \<^verbatim>\<open>"gender_model"\<close>: it opens the file and
  hands it to \<^verbatim>\<open>pickle.load\<close>. It takes one positional argument.
\<close>

definition unpickle :: "('v, 'w, 'img, 'fod, 'enc) extern \<Rightarrow> (string, 'v, 'w) initer" where
  "unpickle ext args kwargs w =
     (case (args, kwargs) of
        ([path], []) \<Rightarrow>
          (case read_binary ext path w of
             Inl e \<Rightarrow> (Inl e, w)
           | Inr content \<Rightarrow> (pickle_load_object ext content, w))
      | _ \<Rightarrow> (Inl TypeError, w))"

definition path_encoder :: "('v, 'w, 'img, 'fod, 'enc) extern \<Rightarrow> string" where
  "path_encoder ext =
     resource_filename ext ''phantom'' ''models/dlib_face_recognition_resnet_model_v1.dat''"

definition path_gender :: "('v, 'w, 'img, 'fod, 'enc) extern \<Rightarrow> string" where
  "path_gender ext =
     (if take 4 (dlib_version ext) = ''19.8''
      then resource_filename ext ''phantom'' ''models/phantom_gender_model_v1_dlib_19.8.dat''
      else resource_filename ext ''phantom'' ''models/phantom_gender_model_v1.dat'')"

definition path_shape_5p :: "('v, 'w, 'img, 'fod, 'enc) extern \<Rightarrow> string" where
  "path_shape_5p ext =
     resource_filename ext ''phantom'' ''models/shape_predictor_5_face_landmarks.dat''"

definition path_shape_68p :: "('v, 'w, 'img, 'fod, 'enc) extern \<Rightarrow> string" where
  "path_shape_68p ext =
     resource_filename ext ''phantom'' ''models/shape_predictor_68_face_landmarks.dat''"

text \<open>The module's store after import: an empty cache and five recipes.\<close>

definition lazy_vars :: "('v, 'w, 'img, 'fod, 'enc) extern \<Rightarrow> (string, 'v, 'w) LazyStore" where
  "lazy_vars ext =
     register ''shape_predictor_68p'' (shape_predictor ext) [path_shape_68p ext] []
       (register ''shape_predictor_5p'' (shape_predictor ext) [path_shape_5p ext] []
         (register ''gender_model'' (unpickle ext) [path_gender ext] []
           (register ''face_encoder'' (face_recognition_model_v1 ext) [path_encoder ext] []
             (register ''face_detector'' (get_frontal_face_detector ext) [] []
               (LazyStore_init None None)))))"

section \<open>Shapes\<close>

text \<open>
  Python's \<^verbatim>\<open>p[i]\<close>, \<^verbatim>\<open>p[lo:hi]\<close> and \<^verbatim>\<open>p[start:stop:-1]\<close> on a list, for the
  constant bounds the module uses (none is negative). An index out of range raises; a
  slice is clipped to the list: \<^verbatim>\<open>p[lo:hi]\<close> holds the positions from \<open>lo\<close> up to
  \<open>hi - 1\<close> that exist, and \<^verbatim>\<open>p[start:stop:-1]\<close> the positions from \<open>start\<close> down to
  \<open>stop + 1\<close> that exist, highest first.
\<close>

definition index :: "'a list \<Rightarrow> nat \<Rightarrow> py_error + 'a" where
  "index p i = (if i < length p then Inr (p ! i) else Inl IndexError)"

definition slice :: "'a list \<Rightarrow> nat \<Rightarrow> nat \<Rightarrow> 'a list" where
  "slice p lo hi = take (hi - lo) (drop lo p)"

definition slice_down :: "'a list \<Rightarrow> nat \<Rightarrow> nat \<Rightarrow> 'a list" where
  "slice_down p start stop = rev (take (start - stop) (drop (Suc stop) p))"

datatype shape_class = Shape | Shape5p | Shape68p

record 'v shape =
  shape_class :: shape_class
  points :: "point list"
  shape_dict :: "(string \<times> point list) list"
  model :: "'v option"

text \<open>
  \<^verbatim>\<open>_make_dict\<close> of each class. The values of a dict display are evaluated in order, so
  the first index out of range raises. The base class leaves \<^verbatim>\<open>self.dict\<close> empty.
\<close>

definition Shape5p_make_dict :: "point list \<Rightarrow> py_error + (string \<times> point list) list" where
  "Shape5p_make_dict p =
     (case index p 4 of
        Inl e \<Rightarrow> Inl e
      | Inr p4 \<Rightarrow>
          Inr [(''eye_left'', slice p 0 2),
               (''eye_right'', slice p 2 4),
               (''nose'', [p4])])"

definition Shape68p_make_dict :: "point list \<Rightarrow> py_error + (string \<times> point list) list" where
  "Shape68p_make_dict p =
     (case index p 48 of
        Inl e \<Rightarrow> Inl e
      | Inr p48 \<Rightarrow>
          (case index p 60 of
             Inl e \<Rightarrow> Inl e
           | Inr p60 \<Rightarrow>
               Inr [(''jawline'', slice p 0 17),
                    (''eyebrow_right'', slice p 17 22),
                    (''eyebrow_left'', slice p 22 27),
                    (''nose_bridge'', slice p 27 31),
                    (''nose_tip'', slice p 31 36),
                    (''eye_right'', slice p 36 42),
                    (''eye_left'', slice p 42 48),
                    (''lips_top'', slice p 48 55 @ slice_down p 64 59),
                    (''lips_bottom'', slice p 54 60 @ [p48, p60] @ slice_down p 67 63)]))"

definition make_dict :: "shape_class \<Rightarrow> point list \<Rightarrow> py_error + (string \<times> point list) list" where
  "make_dict c p =
     (case c of
        Shape \<Rightarrow> Inr []
      | Shape5p \<Rightarrow> Shape5p_make_dict p
      | Shape68p \<Rightarrow> Shape68p_make_dict p)"

text \<open>
  Read off the three \<^verbatim>\<open>_make_dict\<close>: the highest position each one indexes is 4
  (\<^verbatim>\<open>p[4]\<close>) and 60 (\<^verbatim>\<open>p[60]\<close>), so these are the least lengths they accept. And
  the key under which each class asks the store for its predictor.
\<close>

definition min_points :: "shape_class \<Rightarrow> nat" where
  "min_points c = (case c of Shape \<Rightarrow> 0 | Shape5p \<Rightarrow> 5 | Shape68p \<Rightarrow> 61)"

definition predictor_key :: "shape_class \<Rightarrow> key option" where
  "predictor_key c =
     (case c of
        Shape \<Rightarrow> None
      | Shape5p \<Rightarrow> Some ''shape_predictor_5p''
      | Shape68p \<Rightarrow> Some ''shape_predictor_68p'')"

text \<open>
  \<^verbatim>\<open>Shape.__init__\<close>, run for an instance of class \<open>c\<close>: it keeps the points, calls the
  \<^verbatim>\<open>_make_dict\<close> of the instance's class and sets \<^verbatim>\<open>self.model = None\<close>. No length
  is checked.
\<close>

definition Shape_init :: "shape_class \<Rightarrow> point list \<Rightarrow> py_error + 'v shape" where
  "Shape_init c p =
     (case make_dict c p of
        Inl e \<Rightarrow> Inl e
      | Inr d \<Rightarrow> Inr \<lparr>shape_class = c, points = p, shape_dict = d, model = None\<rparr>)"

definition lift :: "py_error + 'a \<Rightarrow> ('s, 'a) prog" where
  "lift r s = (r, s)"

text \<open>
  \<^verbatim>\<open>Shape5p.__init__\<close> and \<^verbatim>\<open>Shape68p.__init__\<close>: the base initialiser, then the
  predictor of the class from the module's store.
\<close>

definition Shape5p_init :: "point list \<Rightarrow> ((string, 'v, 'w) state, 'v shape) prog" where
  "Shape5p_init p =
     bindE (lift (Shape_init Shape5p p)) (\<lambda>self.
     bindE (get ''shape_predictor_5p'') (\<lambda>m.
     ret (self\<lparr>model := Some m\<rparr>)))"

definition Shape68p_init :: "point list \<Rightarrow> ((string, 'v, 'w) state, 'v shape) prog" where
  "Shape68p_init p =
     bindE (lift (Shape_init Shape68p p)) (\<lambda>self.
     bindE (get ''shape_predictor_68p'') (\<lambda>m.
     ret (self\<lparr>model := Some m\<rparr>)))"

text \<open>The call \<^verbatim>\<open>class_(points)\<close> of a class held in a variable.\<close>

definition new :: "shape_class \<Rightarrow> point list \<Rightarrow> ((string, 'v, 'w) state, 'v shape) prog" where
  "new c p =
     (case c of
        Shape \<Rightarrow> lift (Shape_init Shape p)
      | Shape5p \<Rightarrow> Shape5p_init p
      | Shape68p \<Rightarrow> Shape68p_init p)"

section \<open>Detection, landmarks and encodings\<close>

type_synonym location = "int \<times> int \<times> int \<times> int"

definition rect_to_tuple :: "rectangle \<Rightarrow> location" where
  "rect_to_tuple r = (left r, top r, right r, bottom r)"

definition tuple_to_rect :: "location \<Rightarrow> rectangle" where
  "tuple_to_rect t = (case t of (l, t, r, b) \<Rightarrow> Rectangle l t r b)"

text \<open>An external call: it joins the trace, then raises or returns.\<close>

definition external :: "event \<Rightarrow> py_error + 'a \<Rightarrow> (('a0, 'v, 'w) state, 'a) prog" where
  "external ev r = (\<lambda>(self, w, tr). (r, (self, w, tr @ [ev])))"

text \<open>\<^verbatim>\<open>detect(img, *, upsample=1)\<close>\<close>

definition detect ::
  "('v, 'w, 'img, 'fod, 'enc) extern \<Rightarrow> 'img \<Rightarrow> int \<Rightarrow> ((string, 'v, 'w) state, location list) prog"
  where
  "detect ext img upsample =
     bindE (get ''face_detector'') (\<lambda>face_detector.
     bindE (external (DetectorCall upsample) (detector_call ext face_detector img upsample)) (\<lambda>rs.
     ret (map rect_to_tuple rs)))"

text \<open>\<^verbatim>\<open>detect_cnn(img, *, upsample=1)\<close>\<close>

definition detect_cnn :: "'img \<Rightarrow> int \<Rightarrow> location list" where
  "detect_cnn img upsample = []"

text \<open>
  \<^verbatim>\<open>model(img, _tuple_to_rect(loc))\<close>, where \<^verbatim>\<open>model\<close> is the \<^verbatim>\<open>model\<close> attribute
  of a shape: \<^verbatim>\<open>None\<close> (of the base class) is not callable.
\<close>

definition apply_model ::
  "('v, 'w, 'img, 'fod, 'enc) extern \<Rightarrow> 'v option \<Rightarrow> 'img \<Rightarrow> location \<Rightarrow>
   ((string, 'v, 'w) state, 'fod) prog" where
  "apply_model ext m img loc =
     (case m of
        None \<Rightarrow> raise TypeError
      | Some v \<Rightarrow>
          external (PredictorCall (tuple_to_rect loc)) (predictor_call ext v img (tuple_to_rect loc)))"

definition range68 :: "point list" where
  "range68 = map (\<lambda>i. (int i, int i)) [0..<68]"

text \<open>
  \<^verbatim>\<open>landmark(img, *, locations=None, model=Shape68p, upsample=1)\<close>. A shape of the
  class is built from 68 dummy points to reach its predictor; then every location is
  given to the predictor, and then a shape is built from each result.
\<close>

definition landmark ::
  "('v, 'w, 'img, 'fod, 'enc) extern \<Rightarrow> 'img \<Rightarrow> location list option \<Rightarrow> shape_class \<Rightarrow> int \<Rightarrow>
   ((string, 'v, 'w) state, 'v shape list) prog" where
  "landmark ext img locations cls upsample =
     bindE (case locations of None \<Rightarrow> detect ext img upsample | Some ls \<Rightarrow> ret ls) (\<lambda>locations.
     bindE (new cls range68) (\<lambda>shaper.
     bindE (mapM (\<lambda>loc. apply_model ext (model shaper) img loc) locations) (\<lambda>shapelist.
     mapM (\<lambda>face. new cls (parts ext face)) shapelist)))"

text \<open>\<^verbatim>\<open>encode(img, *, locations=None, model=Shape68p, jitter=1)\<close>\<close>

definition encode ::
  "('v, 'w, 'img, 'fod, 'enc) extern \<Rightarrow> 'img \<Rightarrow> location list option \<Rightarrow> shape_class \<Rightarrow> int \<Rightarrow>
   ((string, 'v, 'w) state, 'enc list) prog" where
  "encode ext img locations cls jitter =
     bindE (case locations of None \<Rightarrow> detect ext img 1 | Some ls \<Rightarrow> ret ls) (\<lambda>locations.
     bindE (new cls range68) (\<lambda>shaper.
     bindE (get ''face_encoder'') (\<lambda>face_encoder.
     bindE (mapM (\<lambda>loc. apply_model ext (model shaper) img loc) locations) (\<lambda>shapelist.
     mapM (\<lambda>shape.
         external (EncoderCall jitter) (compute_face_descriptor ext face_encoder img shape jitter))
       shapelist))))"

section \<open>The Atlas\<close>

text \<open>
  The values an Atlas holds and \<^verbatim>\<open>pickle\<close> carries. A dict is the list of its items
  in insertion order; keys are compared structurally (Python also takes \<^verbatim>\<open>1\<close> and
  \<^verbatim>\<open>True\<close> for one key). \<open>PyObject\<close> is an instance of a class, given by the
  name of the class and the instance's attributes, that is hashable and neither
  iterable nor a mapping, as a clustering estimator is. Floats are left out.
\<close>

datatype pyval =
    PyNone
  | PyBool bool
  | PyInt int
  | PyStr string
  | PyList "pyval list"
  | PyTuple "pyval list"
  | PyDict "(pyval \<times> pyval) list"
  | PyObject string "(pyval \<times> pyval) list"

text \<open>\<^verbatim>\<open>v == True\<close>: \<^verbatim>\<open>True\<close> itself and the integer 1.\<close>

fun py_eq_True :: "pyval \<Rightarrow> bool" where
  "py_eq_True (PyBool b) = b"
| "py_eq_True (PyInt i) = (i = 1)"
| "py_eq_True v = False"

text \<open>\<^verbatim>\<open>iter(v)\<close>, run to its end: the items of a list or tuple, the characters of a
  string, the keys of a dict; anything else is not iterable.\<close>

fun py_iter :: "pyval \<Rightarrow> py_error + pyval list" where
  "py_iter (PyList xs) = Inr xs"
| "py_iter (PyTuple xs) = Inr xs"
| "py_iter (PyStr s) = Inr (map (\<lambda>c. PyStr [c]) s)"
| "py_iter (PyDict kvs) = Inr (map fst kvs)"
| "py_iter v = Inl TypeError"

fun hashable :: "pyval \<Rightarrow> bool" where
  "hashable (PyList xs) = False"
| "hashable (PyDict kvs) = False"
| "hashable (PyTuple xs) = list_all hashable xs"
| "hashable v = True"

text \<open>
  An instance is its \<^verbatim>\<open>__dict__\<close>, which \<^verbatim>\<open>load\<close> and \<^verbatim>\<open>save\<close> treat as a
  whole. Reading an attribute that the instance does not have raises (the class
  \<^verbatim>\<open>Atlas\<close> has no data attributes of its own).
\<close>

type_synonym atlas = "(pyval \<times> pyval) list"

definition getattr :: "atlas \<Rightarrow> string \<Rightarrow> py_error + pyval" where
  "getattr self name =
     (case map_of self (PyStr name) of None \<Rightarrow> Inl AttributeError | Some v \<Rightarrow> Inr v)"

text \<open>
  \<^verbatim>\<open>Atlas.__init__(self, elements, path)\<close>. The estimator that
  \<^verbatim>\<open>DBSCAN(eps=0.475, min_samples=2)\<close> returns is a parameter.
\<close>

definition Atlas_init :: "pyval \<Rightarrow> pyval \<Rightarrow> pyval \<Rightarrow> atlas" where
  "Atlas_init dbscan elements path =
     [(PyStr ''elements'', elements),
      (PyStr ''clusters'', PyDict []),
      (PyStr ''groups'', PyNone),
      (PyStr ''grouped'', PyBool False),
      (PyStr ''path'', path),
      (PyStr ''_dbscan'', dbscan),
      (PyStr ''_kmeans'', PyNone)]"

text \<open>\<^verbatim>\<open>Atlas.group(self)\<close>: \<^verbatim>\<open>pass\<close>.\<close>

definition Atlas_group :: "atlas \<Rightarrow> atlas" where
  "Atlas_group self = self"

text \<open>
  The file system: what each path holds, and which paths may be written. The content
  \<open>'b\<close> of a file and \<^verbatim>\<open>pickle\<close> are parameters: \<open>pickle_dump\<close> gives what
  \<^verbatim>\<open>pickle.dump\<close> has written to the file when it returns (\<open>None\<close>) or raises,
  \<open>pickle_load\<close> what \<^verbatim>\<open>pickle.load\<close> makes of a file's content.
\<close>

record 'b filesystem =
  files :: "string \<rightharpoonup> 'b"
  writable :: "string \<Rightarrow> bool"

record 'b pickle =
  pickle_dump :: "pyval \<Rightarrow> 'b \<times> py_error option"
  pickle_load :: "'b \<Rightarrow> py_error + pyval"

text \<open>
  \<^verbatim>\<open>open(path, "rb")\<close> and \<^verbatim>\<open>open(path, "wb")\<close>. A path must be a string; an
  integer would be taken for a file descriptor, and none is open here.
\<close>

definition open_rb :: "'b filesystem \<Rightarrow> pyval \<Rightarrow> py_error + 'b" where
  "open_rb fs path =
     (case path of
        PyStr p \<Rightarrow> (case files fs p of None \<Rightarrow> Inl FileNotFoundError | Some content \<Rightarrow> Inr content)
      | PyInt i \<Rightarrow> Inl (ExternalError ''OSError'')
      | PyBool b \<Rightarrow> Inl (ExternalError ''OSError'')
      | _ \<Rightarrow> Inl TypeError)"

definition open_wb :: "'b filesystem \<Rightarrow> pyval \<Rightarrow> py_error + string" where
  "open_wb fs path =
     (case path of
        PyStr p \<Rightarrow> (if writable fs p then Inr p else Inl PermissionError)
      | PyInt i \<Rightarrow> Inl (ExternalError ''OSError'')
      | PyBool b \<Rightarrow> Inl (ExternalError ''OSError'')
      | _ \<Rightarrow> Inl TypeError)"

text \<open>
  \<^verbatim>\<open>d.update(v)\<close>. A dict gives its items. Any other iterable must yield pairs, which
  are stored one by one until an element is not an iterable of length two or a key is
  unhashable; what was stored before stays. A value that is not iterable raises at once.
\<close>

fun update_pairs :: "pyval list \<Rightarrow> atlas \<Rightarrow> (py_error + unit) \<times> atlas" where
  "update_pairs [] d = (Inr (), d)"
| "update_pairs (e # es) d =
     (case py_iter e of
        Inl err \<Rightarrow> (Inl TypeError, d)
      | Inr [k, v] \<Rightarrow>
          (if hashable k then update_pairs es (AList.update k v d) else (Inl TypeError, d))
      | Inr other \<Rightarrow> (Inl ValueError, d))"

definition py_update :: "pyval \<Rightarrow> atlas \<Rightarrow> (py_error + unit) \<times> atlas" where
  "py_update v d =
     (case v of
        PyDict kvs \<Rightarrow> (Inr (), fold (\<lambda>(k, x). AList.update k x) kvs d)
      | _ \<Rightarrow>
          (case py_iter v of
             Inl err \<Rightarrow> (Inl TypeError, d)
           | Inr items \<Rightarrow> update_pairs items d))"

text \<open>
  \<^verbatim>\<open>Atlas.load(self)\<close>: the file is opened and unpickled first; then
  \<^verbatim>\<open>self.__dict__\<close> is cleared and updated with what was unpickled. The result is
  the outcome and the instance as the call leaves it.
\<close>

definition Atlas_load :: "'b pickle \<Rightarrow> atlas \<Rightarrow> 'b filesystem \<Rightarrow> (py_error + unit) \<times> atlas" where
  "Atlas_load pk self fs =
     (case getattr self ''path'' of
        Inl e \<Rightarrow> (Inl e, self)
      | Inr path \<Rightarrow>
          (case open_rb fs path of
             Inl e \<Rightarrow> (Inl e, self)
           | Inr content \<Rightarrow>
               (case pickle_load pk content of
                  Inl e \<Rightarrow> (Inl e, self)
                | Inr new_dict \<Rightarrow> py_update new_dict [])))"

text \<open>
  \<^verbatim>\<open>Atlas.save(self)\<close>: the file is opened for writing, which empties it, and
  \<^verbatim>\<open>self.__dict__\<close> is pickled into it. The result is the outcome and the file
  system as the call leaves it; the instance does not change.
\<close>

definition Atlas_save ::
  "'b pickle \<Rightarrow> atlas \<Rightarrow> 'b filesystem \<Rightarrow> (py_error + unit) \<times> 'b filesystem" where
  "Atlas_save pk self fs =
     (case getattr self ''path'' of
        Inl e \<Rightarrow> (Inl e, fs)
      | Inr path \<Rightarrow>
          (case open_wb fs path of
             Inl e \<Rightarrow> (Inl e, fs)
           | Inr p \<Rightarrow>
               (case pickle_dump pk (PyDict self) of
                  (written, None) \<Rightarrow> (Inr (), fs\<lparr>files := (files fs)(p \<mapsto> written)\<rparr>)
                | (written, Some e) \<Rightarrow> (Inl e, fs\<lparr>files := (files fs)(p \<mapsto> written)\<rparr>))))"

text \<open>
  The invariant of the specification, \<^verbatim>\<open>grouped == True\<close> iff
  \<^verbatim>\<open>groups is not None\<close>; an instance that lacks one of the two attributes does not
  satisfy it.
\<close>

definition atlas_invariant :: "atlas \<Rightarrow> bool" where
  "atlas_invariant self =
     (case (getattr self ''grouped'', getattr self ''groups'') of
        (Inr grouped, Inr groups) \<Rightarrow> py_eq_True grouped = (groups \<noteq> PyNone)
      | _ \<Rightarrow> False)"

text \<open>
  A caller that works on one Atlas at a time with a file system: it constructs a new
  Atlas, or calls \<^verbatim>\<open>group\<close>, \<^verbatim>\<open>save\<close> or \<^verbatim>\<open>load\<close> on the one it has, catching
  what a call raises.
\<close>

datatype atlas_op = Construct pyval pyval pyval | Group | Save | Load

fun step :: "'b pickle \<Rightarrow> atlas_op \<Rightarrow> atlas \<times> 'b filesystem \<Rightarrow> atlas \<times> 'b filesystem" where
  "step pk (Construct dbscan elements path) (self, fs) = (Atlas_init dbscan elements path, fs)"
| "step pk Group (self, fs) = (Atlas_group self, fs)"
| "step pk Save (self, fs) = (self, snd (Atlas_save pk self fs))"
| "step pk Load (self, fs) = (snd (Atlas_load pk self fs), fs)"

definition run :: "'b pickle \<Rightarrow> atlas_op list \<Rightarrow> atlas \<times> 'b filesystem \<Rightarrow> atlas \<times> 'b filesystem"
  where
  "run pk ops s = fold (step pk) ops s"

text \<open>
  What is assumed of \<^verbatim>\<open>pickle\<close> where a statement says so: \<^verbatim>\<open>pickle.load\<close> gives
  back what a \<^verbatim>\<open>pickle.dump\<close> that returned has written, and raises on what a
  \<^verbatim>\<open>pickle.dump\<close> that raised has left in the file.
\<close>

definition pickle_roundtrip :: "'b pickle \<Rightarrow> bool" where
  "pickle_roundtrip pk =
     (\<forall>v written. pickle_dump pk v = (written, None) \<longrightarrow> pickle_load pk written = Inr v)"

definition failed_dump_unreadable :: "'b pickle \<Rightarrow> bool" where
  "failed_dump_unreadable pk =
     (\<forall>v written e. pickle_dump pk v = (written, Some e) \<longrightarrow> isl (pickle_load pk written))"

text \<open>
  A file's content is a good snapshot when \<^verbatim>\<open>pickle.load\<close> raises on it, or when
  updating an empty \<^verbatim>\<open>__dict__\<close> with what it unpickles to leaves an instance that
  satisfies the invariant.
\<close>

definition good_snapshot :: "'b pickle \<Rightarrow> 'b \<Rightarrow> bool" where
  "good_snapshot pk content =
     (case pickle_load pk content of
        Inl e \<Rightarrow> True
      | Inr v \<Rightarrow> atlas_invariant (snd (py_update v [])))"

definition good_files :: "'b pickle \<Rightarrow> 'b filesystem \<Rightarrow> bool" where
  "good_files pk fs = (\<forall>p content. files fs p = Some content \<longrightarrow> good_snapshot pk content)"

text \<open>
  What every step of such a caller keeps: the items of \<^verbatim>\<open>__dict__\<close> have distinct
  keys (as those of a dict do), the invariant holds, and every file is a good snapshot.
\<close>

definition inv_state :: "'b pickle \<Rightarrow> atlas \<times> 'b filesystem \<Rightarrow> bool" where
  "inv_state pk s = (distinct (map fst (fst s)) \<and> atlas_invariant (fst s) \<and> good_files pk (snd s))"

section \<open>Examples\<close>

text \<open>
  A factory for the examples: it returns the world's counter as a fresh object and
  advances the counter, so that two runs of it return two different objects.
\<close>

definition fresh_object :: "(string, nat, nat) initer" where
  "fresh_object args kwargs w = (Inr w, Suc w)"

text \<open>
  Example libraries: every factory is \<open>fresh_object\<close>; an image is a list of the face
  rectangles in it, which the detector returns; a predictor returns 68 points on the
  diagonal from the left top corner of the rectangle; a descriptor is the number of points it was
  computed from.
\<close>

definition example_ext :: "(nat, nat, rectangle list, point list, nat) extern" where
  "example_ext =
     \<lparr>resource_filename = (\<lambda>package name. name),
      dlib_version = ''19.8.1'',
      get_frontal_face_detector = fresh_object,
      face_recognition_model_v1 = fresh_object,
      shape_predictor = fresh_object,
      read_binary = (\<lambda>path w. Inl FileNotFoundError),
      pickle_load_object = (\<lambda>content. Inl PickleError),
      detector_call = (\<lambda>v img upsample. Inr img),
      predictor_call = (\<lambda>v img r. Inr (map (\<lambda>i. (left r + int i, top r + int i)) [0..<68])),
      parts = (\<lambda>fod. fod),
      compute_face_descriptor = (\<lambda>v img fod jitter. Inr (length fod))\<rparr>"

definition example_store :: "(string, nat, nat) LazyStore" where
  "example_store = lazy_vars example_ext"

text \<open>
  An example \<^verbatim>\<open>pickle\<close>: a file holds a value as it is, or nothing that unpickles.
  Dumping a bare instance of a class raises and leaves such a file. And two file
  systems: an empty one, and one with a file that no \<^verbatim>\<open>save\<close> wrote.
\<close>

definition example_pickle :: "(pyval option) pickle" where
  "example_pickle =
     \<lparr>pickle_dump =
        (\<lambda>v. case v of PyObject c attrs \<Rightarrow> (None, Some PickleError) | _ \<Rightarrow> (Some v, None)),
      pickle_load = (\<lambda>content. case content of None \<Rightarrow> Inl PickleError | Some v \<Rightarrow> Inr v)\<rparr>"

definition example_dbscan :: pyval where
  "example_dbscan = PyObject ''DBSCAN'' [(PyStr ''min_samples'', PyInt 2)]"

definition empty_fs :: "(pyval option) filesystem" where
  "empty_fs = \<lparr>files = Map.empty, writable = (\<lambda>p. True)\<rparr>"

definition foreign_fs :: "(pyval option) filesystem" where
  "foreign_fs =
     \<lparr>files = [''atlas.pkl'' \<mapsto>
         Some (PyDict [(PyStr ''grouped'', PyBool True), (PyStr ''groups'', PyNone)])],
      writable = (\<lambda>p. True)\<rparr>"

definition corrupt_fs :: "(pyval option) filesystem" where
  "corrupt_fs = \<lparr>files = [''atlas.pkl'' \<mapsto> None], writable = (\<lambda>p. True)\<rparr>"

definition integer_fs :: "(pyval option) filesystem" where
  "integer_fs = \<lparr>files = [''atlas.pkl'' \<mapsto> Some (PyInt 42)], writable = (\<lambda>p. True)\<rparr>"

text \<open>An Atlas whose caller has set \<^verbatim>\<open>groups\<close> and \<^verbatim>\<open>grouped\<close>.\<close>

definition grouped_atlas :: atlas where
  "grouped_atlas =
     AList.update (PyStr ''grouped'') (PyBool True)
       (AList.update (PyStr ''groups'') (PyList [PyList [PyInt 0, PyInt 1]])
         (Atlas_init example_dbscan (PyList [PyInt 7, PyInt 8]) (PyStr ''atlas.pkl'')))"

section \<open>The lazy store: cached, built once, never a sentinel\<close>

lemma get_cached:
  "dict self k = Some v \<Longrightarrow> get k (self, w, tr) = (Inr v, (self, w, tr))"
  by (simp add: get_def)

lemma get_unregistered:
  "dict self k = None \<Longrightarrow> reg self k = None \<Longrightarrow>
   get k (self, w, tr) = (Inl (KeyError ''unregistered lazy key.''), (self, w, tr))"
  by (simp add: get_def)

lemma get_builds:
  "dict self k = None \<Longrightarrow> reg self k = Some (func, args, kwargs) \<Longrightarrow>
   func args kwargs w = (Inr v, w') \<Longrightarrow>
   get k (self, w, tr) =
     (Inr v, (self\<lparr>dict := (dict self)(k \<mapsto> v)\<rparr>, w', tr @ [FactoryCall k]))"
  by (simp add: get_def)

lemma get_factory_raises:
  "dict self k = None \<Longrightarrow> reg self k = Some (func, args, kwargs) \<Longrightarrow>
   func args kwargs w = (Inl e, w') \<Longrightarrow>
   get k (self, w, tr) =
     (Inl (if is_KeyError e then KeyError ''unregistered lazy key.'' else e),
      (self, w', tr @ [FactoryCall k]))"
  by (simp add: get_def)

lemma gets_replicate_cached:
  "dict self k = Some v \<Longrightarrow>
   gets (replicate n k) (self, w, tr) = (replicate n (Inr v), (self, w, tr))"
  by (induction n) (simp_all add: get_cached)

lemma gets_replicate_unregistered:
  "dict self k = None \<Longrightarrow> reg self k = None \<Longrightarrow>
   gets (replicate n k) (self, w, tr) =
     (replicate n (Inl (KeyError ''unregistered lazy key.'')), (self, w, tr))"
  by (induction n) (simp_all add: get_unregistered)

lemma cache_of_registered_init: "cache_of_registered (LazyStore_init None r)"
  by (simp add: cache_of_registered_def LazyStore_init_def)

lemma cache_of_registered_register:
  "cache_of_registered self \<Longrightarrow> cache_of_registered (register k' initer args kwargs self)"
  by (auto simp: cache_of_registered_def register_def)

lemma cache_of_registered_get:
  "cache_of_registered self \<Longrightarrow> get k' (self, w, tr) = (r, (self', w', tr')) \<Longrightarrow>
   cache_of_registered self' \<and> reg self' = reg self"
  by (fastforce simp: cache_of_registered_def get_def
        split: option.splits prod.splits sum.splits if_splits)

lemma not_registered_not_cached:
  "cache_of_registered self \<Longrightarrow> reg self k = None \<Longrightarrow> dict self k = None"
  by (auto simp: cache_of_registered_def)

text \<open>
  Claim C2. For a key \<open>k\<close> registered with a factory and not built yet, when the
  factory returns an object \<open>v\<close>: the first \<^verbatim>\<open>get(k)\<close> returns \<open>v\<close>, stores it and
  runs the factory (one \<open>FactoryCall k\<close> joins the trace, and the world is the one the
  factory left); the second \<^verbatim>\<open>get(k)\<close> returns the same \<open>v\<close> and changes nothing, so
  after both calls the factory has run exactly once; and so it stays for any number of
  further calls.
\<close>

theorem get_twice_identical_factory_once:
  assumes "dict self k = None"
    and "reg self k = Some (func, args, kwargs)"
    and "func args kwargs w = (Inr v, w')"
  shows "get k (self, w, tr) =
           (Inr v, (self\<lparr>dict := (dict self)(k \<mapsto> v)\<rparr>, w', tr @ [FactoryCall k]))
       \<and> get k (self\<lparr>dict := (dict self)(k \<mapsto> v)\<rparr>, w', tr @ [FactoryCall k]) =
           (Inr v, (self\<lparr>dict := (dict self)(k \<mapsto> v)\<rparr>, w', tr @ [FactoryCall k]))
       \<and> gets [k, k] (self, w, tr) =
           ([Inr v, Inr v], (self\<lparr>dict := (dict self)(k \<mapsto> v)\<rparr>, w', tr @ [FactoryCall k]))
       \<and> gets (replicate (Suc n) k) (self, w, tr) =
           (replicate (Suc n) (Inr v),
            (self\<lparr>dict := (dict self)(k \<mapsto> v)\<rparr>, w', tr @ [FactoryCall k]))"
proof -
  let ?self' = "self\<lparr>dict := (dict self)(k \<mapsto> v)\<rparr>"
  have first: "get k (self, w, tr) = (Inr v, (?self', w', tr @ [FactoryCall k]))"
    using assms by (rule get_builds)
  have cached: "dict ?self' k = Some v"
    by simp
  have second: "get k (?self', w', tr @ [FactoryCall k]) = (Inr v, (?self', w', tr @ [FactoryCall k]))"
    using cached by (rule get_cached)
  have rest: "gets (replicate m k) (?self', w', tr @ [FactoryCall k]) =
      (replicate m (Inr v), (?self', w', tr @ [FactoryCall k]))" for m
    using cached by (rule gets_replicate_cached)
  have two: "gets [k, k] (self, w, tr) = ([Inr v, Inr v], (?self', w', tr @ [FactoryCall k]))"
    by (simp add: first second)
  have many: "gets (replicate (Suc n) k) (self, w, tr) =
      (replicate (Suc n) (Inr v), (?self', w', tr @ [FactoryCall k]))"
    by (simp add: first rest)
  from first second two many show ?thesis
    by blast
qed

theorem get_twice_identical_factory_once_witness:
  "fst (gets [''face_encoder'', ''face_encoder''] (example_store, 7, [])) = [Inr 7, Inr 7]
   \<and> snd (snd (snd (gets [''face_encoder'', ''face_encoder''] (example_store, 7, [])))) =
       [FactoryCall ''face_encoder'']
   \<and> fst (snd (snd (gets [''face_encoder'', ''face_encoder''] (example_store, 7, [])))) = 8"
  using get_twice_identical_factory_once
    [of example_store "''face_encoder''" fresh_object
        "[''models/dlib_face_recognition_resnet_model_v1.dat'']" "[]" 7 7 8 "[]" 0]
  by (simp add: example_store_def lazy_vars_def example_ext_def register_def LazyStore_init_def
        fresh_object_def path_encoder_def)

text \<open>
  Claim C6. In a store whose cache holds objects of registered keys only, a key that is
  not registered makes every \<^verbatim>\<open>get\<close> raise \<^verbatim>\<open>KeyError("unregistered lazy key.")\<close>,
  a \<^verbatim>\<open>LookupError\<close>; the call leaves the store, its cache included, the world and the
  trace as they were, so any number of calls in a row fail in the same way.
\<close>

theorem get_never_registered_fails:
  assumes "cache_of_registered self" and "reg self k = None"
  shows "get k (self, w, tr) = (Inl (KeyError ''unregistered lazy key.''), (self, w, tr))
       \<and> is_LookupError (KeyError ''unregistered lazy key.'')
       \<and> gets (replicate n k) (self, w, tr) =
           (replicate n (Inl (KeyError ''unregistered lazy key.'')), (self, w, tr))"
proof -
  have none: "dict self k = None"
    using assms by (rule not_registered_not_cached)
  have one: "get k (self, w, tr) = (Inl (KeyError ''unregistered lazy key.''), (self, w, tr))"
    using none assms(2) by (rule get_unregistered)
  have all: "gets (replicate n k) (self, w, tr) =
      (replicate n (Inl (KeyError ''unregistered lazy key.'')), (self, w, tr))"
    using none assms(2) by (rule gets_replicate_unregistered)
  from one all show ?thesis
    by simp
qed

theorem get_never_registered_fails_witness:
  "fst (gets [''face_detector_cnn'', ''face_detector_cnn'', ''face_detector_cnn''] (example_store, 7, [])) =
     [Inl (KeyError ''unregistered lazy key.''), Inl (KeyError ''unregistered lazy key.''),
      Inl (KeyError ''unregistered lazy key.'')]
   \<and> dict (fst (snd (gets [''face_detector_cnn'', ''face_detector_cnn'', ''face_detector_cnn'']
        (example_store, 7, [])))) = Map.empty
   \<and> snd (snd (gets [''face_detector_cnn'', ''face_detector_cnn'', ''face_detector_cnn'']
        (example_store, 7, []))) = (7, [])"
proof -
  have wf: "cache_of_registered example_store"
    by (simp add: example_store_def lazy_vars_def cache_of_registered_register
          cache_of_registered_init)
  have unreg: "reg example_store ''face_detector_cnn'' = None"
    by (simp add: example_store_def lazy_vars_def register_def LazyStore_init_def)
  have three: "replicate 3 ''face_detector_cnn'' = [''face_detector_cnn'', ''face_detector_cnn'', ''face_detector_cnn'']"
    by (simp add: numeral_3_eq_3)
  show ?thesis
    using get_never_registered_fails [OF wf unreg, of 7 "[]" 3]
    by (simp add: three numeral_3_eq_3 example_store_def lazy_vars_def register_def
          LazyStore_init_def)
qed

section \<open>Shapes: the region partition, and the lengths accepted\<close>

lemma bindE_ret: "bindE (ret x) f = f x"
  by (rule ext) (simp add: bindE_def ret_def)

lemma bindE_raise: "bindE (raise e) f = raise e"
  by (rule ext) (simp add: bindE_def raise_def)

lemma bindE_lift_Inr: "bindE (lift (Inr x)) f = f x"
  by (rule ext) (simp add: bindE_def lift_def)

lemma bindE_lift_Inl: "bindE (lift (Inl e)) f = raise e"
  by (rule ext) (simp add: bindE_def lift_def raise_def)

lemma bindE_assoc: "bindE (bindE m f) g = bindE m (\<lambda>x. bindE (f x) g)"
  by (rule ext) (simp add: bindE_def split: prod.splits sum.splits)

lemma bindE_ret_right: "bindE m ret = m"
  by (rule ext) (simp add: bindE_def ret_def split: prod.splits sum.splits)

lemma bindE_Inr: "m s = (Inr x, s') \<Longrightarrow> bindE m f s = f x s'"
  by (simp add: bindE_def)

lemma bindE_Inl: "m s = (Inl e, s') \<Longrightarrow> bindE m f s = (Inl e, s')"
  by (simp add: bindE_def)

lemma slice_nth: "hi \<le> length p \<Longrightarrow> slice p lo hi = map ((!) p) [lo..<hi]"
  by (auto simp: slice_def list_eq_iff_nth_eq)

lemma slice_down_rev_slice: "slice_down p start stop = rev (slice p (Suc stop) (Suc start))"
  by (simp add: slice_down_def slice_def)

lemma slice_down_nth:
  "start < length p \<Longrightarrow> slice_down p start stop = map ((!) p) (rev [Suc stop..<Suc start])"
  by (simp add: slice_down_rev_slice slice_nth rev_map del: upt_Suc)

lemma make_dict_short: "length p < min_points c \<Longrightarrow> make_dict c p = Inl IndexError"
  by (cases c) (simp_all add: make_dict_def min_points_def Shape5p_make_dict_def
      Shape68p_make_dict_def index_def)

lemma make_dict_long: "min_points c \<le> length p \<Longrightarrow> \<exists>d. make_dict c p = Inr d"
  by (cases c) (simp_all add: make_dict_def min_points_def Shape5p_make_dict_def
      Shape68p_make_dict_def index_def)

lemma new_unfold:
  "new c p =
     bindE (lift (Shape_init c p)) (\<lambda>self.
       (case predictor_key c of
          None \<Rightarrow> ret self
        | Some k \<Rightarrow> bindE (get k) (\<lambda>m. ret (self\<lparr>model := Some m\<rparr>))))"
proof (cases c)
  case Shape
  then show ?thesis
    by (simp add: new_def predictor_key_def bindE_ret_right)
next
  case Shape5p
  then show ?thesis
    by (simp add: new_def predictor_key_def Shape5p_init_def)
next
  case Shape68p
  then show ?thesis
    by (simp add: new_def predictor_key_def Shape68p_init_def)
qed

lemma new_short: "length p < min_points c \<Longrightarrow> new c p st = (Inl IndexError, st)"
  by (simp add: new_unfold Shape_init_def make_dict_short bindE_lift_Inl raise_def)

lemma new_long:
  assumes "make_dict c p = Inr d"
  shows "new c p =
     (case predictor_key c of
        None \<Rightarrow> ret \<lparr>shape_class = c, points = p, shape_dict = d, model = None\<rparr>
      | Some k \<Rightarrow> bindE (get k)
          (\<lambda>m. ret \<lparr>shape_class = c, points = p, shape_dict = d, model = Some m\<rparr>))"
  using assms by (simp add: new_unfold Shape_init_def bindE_lift_Inr split: option.splits)

lemma get_trace:
  "get k (self, w, tr) = (r, (self', w', tr')) \<Longrightarrow>
   tr' = tr \<or> tr' = tr @ [FactoryCall k]"
  by (auto simp: get_def split: option.splits prod.splits sum.splits)

lemma get_Inr_cached:
  "get k (self, w, tr) = (Inr v, (self', w', tr')) \<Longrightarrow> dict self' k = Some v"
  by (auto simp: get_def split: option.splits prod.splits sum.splits)

lemma new_Inr:
  assumes "new c p st = (Inr s, st')"
  shows "points s = p \<and> shape_class s = c \<and> min_points c \<le> length p
       \<and> make_dict c p = Inr (shape_dict s)
       \<and> (case predictor_key c of
            None \<Rightarrow> model s = None \<and> st' = st
          | Some k \<Rightarrow> (\<exists>v. model s = Some v \<and> get k st = (Inr v, st')))"
proof -
  have len: "min_points c \<le> length p"
  proof (rule ccontr)
    assume "\<not> min_points c \<le> length p"
    then have "new c p st = (Inl IndexError, st)"
      by (simp add: new_short)
    with assms show False by simp
  qed
  then obtain d where d: "make_dict c p = Inr d"
    using make_dict_long by blast
  show ?thesis
    using assms len d
    by (auto simp: new_long [OF d] ret_def bindE_def split: option.splits prod.splits sum.splits)
qed

lemma Shape68p_make_dict_68:
  assumes "length P = 68"
  shows "make_dict Shape68p P =
     Inr [(''jawline'', map ((!) P) [0..<17]),
          (''eyebrow_right'', map ((!) P) [17..<22]),
          (''eyebrow_left'', map ((!) P) [22..<27]),
          (''nose_bridge'', map ((!) P) [27..<31]),
          (''nose_tip'', map ((!) P) [31..<36]),
          (''eye_right'', map ((!) P) [36..<42]),
          (''eye_left'', map ((!) P) [42..<48]),
          (''lips_top'', map ((!) P) ([48..<55] @ rev [60..<65])),
          (''lips_bottom'', map ((!) P) ([54..<60] @ [48, 60] @ rev [64..<68]))]"
proof -
  have idx: "index P 48 = Inr (P ! 48)" "index P 60 = Inr (P ! 60)"
    using assms by (simp_all add: index_def)
  have sl: "slice P lo hi = map ((!) P) [lo..<hi]" if "hi \<le> 68" for lo hi
    using that assms by (simp add: slice_nth)
  have sd: "slice_down P start stop = map ((!) P) (rev [Suc stop..<Suc start])"
    if "start < 68" for start stop
    using that assms by (simp add: slice_down_nth)
  have "Shape68p_make_dict P =
     Inr [(''jawline'', map ((!) P) [0..<17]),
          (''eyebrow_right'', map ((!) P) [17..<22]),
          (''eyebrow_left'', map ((!) P) [22..<27]),
          (''nose_bridge'', map ((!) P) [27..<31]),
          (''nose_tip'', map ((!) P) [31..<36]),
          (''eye_right'', map ((!) P) [36..<42]),
          (''eye_left'', map ((!) P) [42..<48]),
          (''lips_top'', map ((!) P) [48..<55] @ map ((!) P) (rev [Suc 59..<Suc 64])),
          (''lips_bottom'', map ((!) P) [54..<60] @ [P ! 48, P ! 60]
              @ map ((!) P) (rev [Suc 63..<Suc 67]))]"
    unfolding Shape68p_make_dict_def idx by (simp only: sum.case sl sd)
  then show ?thesis
    by (simp add: make_dict_def eval_nat_numeral del: upt_Suc)
qed

text \<open>
  Claim C1. A 68-point shape built from a list \<open>P\<close> of 68 points (the predictor being
  obtained from the store) keeps \<open>P\<close>, and its region mapping is the fixed partition
  of the positions: \<^verbatim>\<open>"jawline"\<close> is \<open>P[0..16]\<close>, \<^verbatim>\<open>"nose_bridge"\<close> is
  \<open>P[27..30]\<close>, and \<^verbatim>\<open>"lips_top"\<close> is \<open>P[48..54]\<close> followed by
  \<open>P[64], P[63], P[62], P[61], P[60]\<close>; the six other regions are as listed.
\<close>

theorem Shape68p_region_partition:
  assumes "length P = 68"
    and "get ''shape_predictor_68p'' st = (Inr m, st')"
  shows "\<exists>s. new Shape68p P st = (Inr s, st') \<and> points s = P
     \<and> shape_dict s =
         [(''jawline'', map ((!) P) [0..<17]),
          (''eyebrow_right'', map ((!) P) [17..<22]),
          (''eyebrow_left'', map ((!) P) [22..<27]),
          (''nose_bridge'', map ((!) P) [27..<31]),
          (''nose_tip'', map ((!) P) [31..<36]),
          (''eye_right'', map ((!) P) [36..<42]),
          (''eye_left'', map ((!) P) [42..<48]),
          (''lips_top'', map ((!) P) ([48..<55] @ rev [60..<65])),
          (''lips_bottom'', map ((!) P) ([54..<60] @ [48, 60] @ rev [64..<68]))]
     \<and> map_of (shape_dict s) ''jawline'' = Some (map ((!) P) [0..<17])
     \<and> map_of (shape_dict s) ''nose_bridge'' = Some (map ((!) P) [27..<31])
     \<and> map_of (shape_dict s) ''lips_top'' =
         Some [P ! 48, P ! 49, P ! 50, P ! 51, P ! 52, P ! 53, P ! 54,
               P ! 64, P ! 63, P ! 62, P ! 61, P ! 60]"
proof -
  let ?d = "[(''jawline'', map ((!) P) [0..<17]),
          (''eyebrow_right'', map ((!) P) [17..<22]),
          (''eyebrow_left'', map ((!) P) [22..<27]),
          (''nose_bridge'', map ((!) P) [27..<31]),
          (''nose_tip'', map ((!) P) [31..<36]),
          (''eye_right'', map ((!) P) [36..<42]),
          (''eye_left'', map ((!) P) [42..<48]),
          (''lips_top'', map ((!) P) ([48..<55] @ rev [60..<65])),
          (''lips_bottom'', map ((!) P) ([54..<60] @ [48, 60] @ rev [64..<68]))]"
  let ?s = "\<lparr>shape_class = Shape68p, points = P, shape_dict = ?d, model = Some m\<rparr>"
  have d: "make_dict Shape68p P = Inr ?d"
    using assms(1) by (rule Shape68p_make_dict_68)
  have "new Shape68p P st = (Inr ?s, st')"
    using assms(2) by (simp add: new_long [OF d] predictor_key_def bindE_def ret_def)
  moreover have "map_of ?d ''jawline'' = Some (map ((!) P) [0..<17])"
    by simp
  moreover have "map_of ?d ''nose_bridge'' = Some (map ((!) P) [27..<31])"
    by simp
  moreover have "map_of ?d ''lips_top'' =
      Some [P ! 48, P ! 49, P ! 50, P ! 51, P ! 52, P ! 53, P ! 54,
            P ! 64, P ! 63, P ! 62, P ! 61, P ! 60]"
    by (simp add: upt_rec_numeral)
  ultimately show ?thesis
    by (intro exI [of _ ?s]) simp
qed

theorem Shape68p_region_partition_witness:
  "\<exists>s. fst (new Shape68p range68 (example_store, 0, [])) = Inr s \<and> points s = range68
     \<and> map_of (shape_dict s) ''jawline'' =
         Some [(0, 0), (1, 1), (2, 2), (3, 3), (4, 4), (5, 5), (6, 6), (7, 7), (8, 8), (9, 9),
               (10, 10), (11, 11), (12, 12), (13, 13), (14, 14), (15, 15), (16, 16)]
     \<and> map_of (shape_dict s) ''nose_bridge'' = Some [(27, 27), (28, 28), (29, 29), (30, 30)]
     \<and> map_of (shape_dict s) ''lips_top'' =
         Some [(48, 48), (49, 49), (50, 50), (51, 51), (52, 52), (53, 53), (54, 54),
               (64, 64), (63, 63), (62, 62), (61, 61), (60, 60)]"
proof -
  have len: "length range68 = 68"
    by (simp add: range68_def)
  have nth: "range68 ! i = (int i, int i)" if "i < 68" for i
    using that by (simp add: range68_def del: upt_Suc)
  have "fst (get ''shape_predictor_68p'' (example_store, 0, [])) = Inr 0"
    by (simp add: get_def example_store_def lazy_vars_def example_ext_def register_def
        LazyStore_init_def fresh_object_def)
  then have got: "get ''shape_predictor_68p'' (example_store, 0, []) =
      (Inr 0, snd (get ''shape_predictor_68p'' (example_store, 0, [])))"
    by (metis prod.collapse)
  have jaw: "map ((!) range68) [0..<17] =
      [(0, 0), (1, 1), (2, 2), (3, 3), (4, 4), (5, 5), (6, 6), (7, 7), (8, 8), (9, 9),
       (10, 10), (11, 11), (12, 12), (13, 13), (14, 14), (15, 15), (16, 16)]"
    by code_simp
  from Shape68p_region_partition [OF len got] show ?thesis
    by (auto simp: nth jaw upt_rec_numeral)
qed

text \<open>
  Against claim C4 as stated: a 5-point shape is built from 68 points, as
  \<^verbatim>\<open>landmark\<close> and \<^verbatim>\<open>encode\<close> do with their dummy points, and holds all 68;
  a 68-point shape is built from 61 points.
\<close>

theorem Shape5p_accepts_68_points:
  "fst (new Shape5p range68 (example_store, 0, [])) =
     Inr \<lparr>shape_class = Shape5p, points = range68,
          shape_dict = [(''eye_left'', [(0, 0), (1, 1)]), (''eye_right'', [(2, 2), (3, 3)]),
                        (''nose'', [(4, 4)])],
          model = Some 0\<rparr>
   \<and> length range68 = 68
   \<and> length (points (projr (fst (new Shape68p (take 61 range68) (example_store, 0, []))))) = 61
   \<and> isl (fst (new Shape68p (take 61 range68) (example_store, 0, []))) = False"
  by code_simp

text \<open>
  Claim C4, amended. No initialiser checks a length. Building a shape fails with
  \<^verbatim>\<open>IndexError\<close>, before the store is asked for anything, exactly when the list is
  too short for the positions \<^verbatim>\<open>_make_dict\<close> indexes: shorter than 5 for the 5-point
  class, shorter than 61 for the 68-point class. From any list at least that long the
  shape is built once the store yields the predictor, and a built shape holds exactly
  the list it was given.
\<close>

theorem shape_keeps_points_no_length_check:
  "(length p < min_points c \<longrightarrow> new c p st = (Inl IndexError, st))
   \<and> (min_points c \<le> length p \<longrightarrow>
        (\<exists>d. make_dict c p = Inr d \<and>
          new c p =
            (case predictor_key c of
               None \<Rightarrow> ret \<lparr>shape_class = c, points = p, shape_dict = d, model = None\<rparr>
             | Some k \<Rightarrow>
                 bindE (get k)
                   (\<lambda>m. ret \<lparr>shape_class = c, points = p, shape_dict = d, model = Some m\<rparr>))))
   \<and> (new c p st = (Inr s, st') \<longrightarrow>
        points s = p \<and> shape_class s = c \<and> min_points c \<le> length p)
   \<and> min_points Shape5p = 5 \<and> min_points Shape68p = 61"
proof (intro conjI impI)
  assume "length p < min_points c"
  then show "new c p st = (Inl IndexError, st)"
    by (rule new_short)
next
  assume "min_points c \<le> length p"
  then obtain d where d: "make_dict c p = Inr d"
    using make_dict_long by blast
  from d new_long [OF d]
  show "\<exists>d. make_dict c p = Inr d \<and>
          new c p =
            (case predictor_key c of
               None \<Rightarrow> ret \<lparr>shape_class = c, points = p, shape_dict = d, model = None\<rparr>
             | Some k \<Rightarrow>
                 bindE (get k)
                   (\<lambda>m. ret \<lparr>shape_class = c, points = p, shape_dict = d, model = Some m\<rparr>))"
    by blast
next
  assume "new c p st = (Inr s, st')"
  from new_Inr [OF this]
  show "points s = p" "shape_class s = c" "min_points c \<le> length p"
    by simp_all
next
  show "min_points Shape5p = 5" "min_points Shape68p = 61"
    by (simp_all add: min_points_def)
qed

theorem shape_keeps_points_no_length_check_witness:
  "fst (new Shape5p (take 4 range68) (example_store, 0, [])) = Inl IndexError
   \<and> fst (new Shape68p (take 60 range68) (example_store, 0, [])) = Inl IndexError
   \<and> points (projr (fst (new Shape5p range68 (example_store, 0, [])))) = range68
   \<and> min_points Shape5p \<le> length range68"
proof -
  have len: "length range68 = 68"
    by (simp add: range68_def)
  have "isl (fst (new Shape5p range68 (example_store, 0, []))) = False"
    by code_simp
  then obtain s st' where built: "new Shape5p range68 (example_store, 0, []) = (Inr s, st')"
    by (metis prod.collapse sum.collapse(2))
  have short5: "length (take 4 range68) < min_points Shape5p"
    by (simp add: len min_points_def)
  have short68: "length (take 60 range68) < min_points Shape68p"
    by (simp add: len min_points_def)
  from shape_keeps_points_no_length_check
         [of "take 4 range68" Shape5p "(example_store, 0, [])"] short5
  have a: "new Shape5p (take 4 range68) (example_store, 0, []) =
      (Inl IndexError, (example_store, 0, []))"
    by blast
  from shape_keeps_points_no_length_check
         [of "take 60 range68" Shape68p "(example_store, 0, [])"] short68
  have b: "new Shape68p (take 60 range68) (example_store, 0, []) =
      (Inl IndexError, (example_store, 0, []))"
    by blast
  from shape_keeps_points_no_length_check
         [of range68 Shape5p "(example_store, 0, [])" s st'] built
  have c: "points s = range68" "min_points Shape5p \<le> length range68"
    by blast+
  from a b c built show ?thesis
    by simp
qed

section \<open>The pipeline: what \<^verbatim>\<open>landmark\<close> and \<^verbatim>\<open>encode\<close> call\<close>

lemma mapM_Nil: "mapM f [] = ret []"
  by (rule ext) simp

lemma mapM_map: "mapM (\<lambda>x. f (g x)) xs = mapM f (map g xs)"
  by (induction xs) simp_all

lemma mapM_Inr_list_all2:
  assumes "mapM f xs st = (Inr ys, st')"
    and "\<And>x s r s'. x \<in> set xs \<Longrightarrow> f x s = (Inr r, s') \<Longrightarrow> Q x r"
  shows "list_all2 Q xs ys"
  using assms
proof (induction xs arbitrary: st ys)
  case Nil
  then show ?case by (simp add: ret_def)
next
  case (Cons x xs)
  from Cons.prems(1) obtain y s1 where y: "f x st = (Inr y, s1)"
    by (auto simp: bindE_def split: prod.splits sum.splits)
  with Cons.prems(1) obtain ys' where ys': "mapM f xs s1 = (Inr ys', st')" and ys: "ys = y # ys'"
    by (auto simp: bindE_def ret_def split: prod.splits sum.splits)
  have "Q x y"
    using Cons.prems(2) y by (metis list.set_intros(1))
  moreover have "list_all2 Q xs ys'"
    using ys' Cons.prems(2) by (intro Cons.IH [of s1 ys']) auto
  ultimately show ?case
    using ys by simp
qed

lemma external_apply:
  "external ev r (self, w, tr) = (r, (self, w, tr @ [ev]))"
  by (simp add: external_def)

lemma detect_unfold:
  assumes "get ''face_detector'' st = (Inr fd, (self1, w1, tr1))"
  shows "detect ext img u st =
     (case detector_call ext fd img u of
        Inl e \<Rightarrow> (Inl e, (self1, w1, tr1 @ [DetectorCall u]))
      | Inr rs \<Rightarrow> (Inr (map rect_to_tuple rs), (self1, w1, tr1 @ [DetectorCall u])))"
  using assms
  by (simp add: detect_def bindE_def external_apply ret_def split: sum.splits)

lemma encode_None: 
  "encode ext img None cls jitter =
     bindE (detect ext img 1) (\<lambda>locations. encode ext img (Some locations) cls jitter)"
  by (simp add: encode_def bindE_ret)

lemma landmark_None: 
  "landmark ext img None cls upsample =
     bindE (detect ext img upsample) (\<lambda>locations. landmark ext img (Some locations) cls upsample)"
  by (simp add: landmark_def bindE_ret)

lemma landmark_empty:
  "landmark ext img (Some []) cls upsample = bindE (new cls range68) (\<lambda>shaper. ret [])"
  by (simp add: landmark_def bindE_ret mapM_Nil)

lemma encode_empty:
  "encode ext img (Some []) cls jitter =
     bindE (new cls range68) (\<lambda>shaper. bindE (get ''face_encoder'') (\<lambda>face_encoder. ret []))"
  by (simp add: encode_def bindE_ret mapM_Nil)

lemma get_trace_keys:
  assumes "get k (self, w, tr) = (r, (self', w', tr'))"
  shows "\<exists>ks. tr' = tr @ map FactoryCall ks \<and> set ks \<subseteq> {k}"
proof -
  from get_trace [OF assms] show ?thesis
  proof
    assume "tr' = tr"
    then have "tr' = tr @ map FactoryCall [] \<and> set [] \<subseteq> {k}" by simp
    then show ?thesis by blast
  next
    assume "tr' = tr @ [FactoryCall k]"
    then have "tr' = tr @ map FactoryCall [k] \<and> set [k] \<subseteq> {k}" by simp
    then show ?thesis by blast
  qed
qed

lemma new_trace_keys:
  fixes self :: "(string, 'v, 'w) LazyStore"
  assumes "new c p (self, w, tr) = (r, (self', w', tr'))"
  shows "\<exists>ks. tr' = tr @ map FactoryCall ks \<and> set ks \<subseteq> set_option (predictor_key c)"
proof (cases "Shape_init c p :: py_error + 'v shape")
  case (Inl e)
  with assms have "tr' = tr"
    by (simp add: new_unfold bindE_lift_Inl raise_def)
  then have "tr' = tr @ map FactoryCall [] \<and> set [] \<subseteq> set_option (predictor_key c)"
    by simp
  then show ?thesis by blast
next
  case (Inr s0)
  show ?thesis
  proof (cases "predictor_key c")
    case None
    with Inr assms have "tr' = tr"
      by (simp add: new_unfold bindE_lift_Inr ret_def)
    then have "tr' = tr @ map FactoryCall [] \<and> set [] \<subseteq> set_option (predictor_key c)"
      by simp
    then show ?thesis by blast
  next
    case (Some k)
    with Inr assms obtain r0 where "get k (self, w, tr) = (r0, (self', w', tr'))"
      by (auto simp: new_unfold bindE_lift_Inr bindE_def ret_def split: prod.splits sum.splits)
    from get_trace_keys [OF this] Some show ?thesis
      by simp
  qed
qed

lemma length_range68: "length range68 = 68"
  by (simp add: range68_def)

lemma min_points_le_range68: "min_points c \<le> length range68"
  by (cases c) (simp_all add: min_points_def length_range68)

text \<open>
  Against claim C3 as stated: in the module's store right after import, where no
  predictor is built yet, \<^verbatim>\<open>landmark(img, locations=[])\<close> returns the empty list, but
  the store now holds the 68-point predictor and its factory has run; \<^verbatim>\<open>encode\<close>
  with an empty list runs the factory of the encoder as well.
\<close>

theorem landmark_empty_locations_runs_factory:
  "fst (landmark example_ext [] (Some []) Shape68p 1 (example_store, 0, [])) = Inr []
   \<and> dict example_store ''shape_predictor_68p'' = None
   \<and> dict (fst (snd (landmark example_ext [] (Some []) Shape68p 1 (example_store, 0, []))))
        ''shape_predictor_68p'' = Some 0
   \<and> snd (snd (snd (landmark example_ext [] (Some []) Shape68p 1 (example_store, 0, [])))) =
        [FactoryCall ''shape_predictor_68p'']
   \<and> snd (snd (snd (encode example_ext [] (Some []) Shape68p 1 (example_store, 0, [])))) =
        [FactoryCall ''shape_predictor_68p'', FactoryCall ''face_encoder'']"
  by code_simp

text \<open>
  Claim C3, amended. With an empty list of locations, \<^verbatim>\<open>landmark\<close> does exactly
  what building the probe shape \<^verbatim>\<open>model([(i, i) for i in range(68)])\<close> does and then
  returns the empty list; \<^verbatim>\<open>encode\<close> builds the probe shape, asks the store for the
  face encoder and returns the empty list. So whenever they return, they return the
  empty list, and no detector, predictor or encoder is applied to the image: the trace
  grows by runs of factories only, of the predictor of the class and, for
  \<^verbatim>\<open>encode\<close>, of the face encoder. But a predictor that is registered and not built
  yet is built by the call and stored.
\<close>

theorem empty_locations_probe_shape_only:
  fixes self :: "(string, 'v, 'w) LazyStore"
    and ext :: "('v, 'w, 'img, 'fod, 'enc) extern"
  shows "landmark ext img (Some []) cls upsample = bindE (new cls range68) (\<lambda>shaper. ret [])
   \<and> encode ext img (Some []) cls jitter =
       bindE (new cls range68) (\<lambda>shaper. bindE (get ''face_encoder'') (\<lambda>face_encoder. ret []))
   \<and> (landmark ext img (Some []) cls upsample (self, w, tr) = (r, (self', w', tr')) \<longrightarrow>
        (r = Inr [] \<or> isl r)
        \<and> (\<exists>ks. tr' = tr @ map FactoryCall ks \<and> set ks \<subseteq> set_option (predictor_key cls)))
   \<and> (encode ext img (Some []) cls jitter (self, w, tr) = (r2, (self2, w2, tr2)) \<longrightarrow>
        (r2 = Inr [] \<or> isl r2)
        \<and> (\<exists>ks. tr2 = tr @ map FactoryCall ks
              \<and> set ks \<subseteq> set_option (predictor_key cls) \<union> {''face_encoder''}))
   \<and> (predictor_key cls = Some k \<and> dict self k = None \<and> reg self k = Some (func, args, kwargs)
        \<and> func args kwargs w = (Inr v, w1) \<longrightarrow>
        landmark ext img (Some []) cls upsample (self, w, tr) =
          (Inr [], (self\<lparr>dict := (dict self)(k \<mapsto> v)\<rparr>, w1, tr @ [FactoryCall k])))"
proof (intro conjI impI)
  show "landmark ext img (Some []) cls upsample = bindE (new cls range68) (\<lambda>shaper. ret [])"
    by (rule landmark_empty)
  show "encode ext img (Some []) cls jitter =
       bindE (new cls range68) (\<lambda>shaper. bindE (get ''face_encoder'') (\<lambda>face_encoder. ret []))"
    by (rule encode_empty)
next
  assume run: "landmark ext img (Some []) cls upsample (self, w, tr) = (r, (self', w', tr'))"
  obtain r0 where new: "new cls range68 (self, w, tr) = (r0, (self', w', tr'))"
    and r: "r = Inr [] \<or> isl r"
    using run
    by (cases "new cls range68 (self, w, tr)")
       (auto simp: landmark_empty bindE_def ret_def split: sum.splits)
  from r show "r = Inr [] \<or> isl r" .
  from new_trace_keys [OF new]
  show "\<exists>ks. tr' = tr @ map FactoryCall ks \<and> set ks \<subseteq> set_option (predictor_key cls)" .
next
  assume run: "encode ext img (Some []) cls jitter (self, w, tr) = (r2, (self2, w2, tr2))"
  obtain r0 s1 w1 t1 where new: "new cls range68 (self, w, tr) = (r0, (s1, w1, t1))"
    by (metis prod.exhaust)
  from new_trace_keys [OF new] obtain ks1 where
    ks1: "t1 = tr @ map FactoryCall ks1" "set ks1 \<subseteq> set_option (predictor_key cls)"
    by blast
  show "r2 = Inr [] \<or> isl r2"
    using run by (auto simp: encode_empty bindE_def ret_def split: sum.splits prod.splits)
  show "\<exists>ks. tr2 = tr @ map FactoryCall ks
          \<and> set ks \<subseteq> set_option (predictor_key cls) \<union> {''face_encoder''}"
  proof (cases r0)
    case (Inl e)
    with run new have "tr2 = t1"
      by (simp add: encode_empty bindE_def)
    with ks1 have "tr2 = tr @ map FactoryCall ks1
        \<and> set ks1 \<subseteq> set_option (predictor_key cls) \<union> {''face_encoder''}"
      by auto
    then show ?thesis by blast
  next
    case (Inr shaper)
    with run new obtain r1 where "get ''face_encoder'' (s1, w1, t1) = (r1, (self2, w2, tr2))"
      by (auto simp: encode_empty bindE_def ret_def split: sum.splits prod.splits)
    from get_trace_keys [OF this] obtain ks2 where
      ks2: "tr2 = t1 @ map FactoryCall ks2" "set ks2 \<subseteq> {''face_encoder''}"
      by blast
    from ks1 ks2 have "tr2 = tr @ map FactoryCall (ks1 @ ks2)
        \<and> set (ks1 @ ks2) \<subseteq> set_option (predictor_key cls) \<union> {''face_encoder''}"
      by auto
    then show ?thesis by blast
  qed
next
  assume h: "predictor_key cls = Some k \<and> dict self k = None
      \<and> reg self k = Some (func, args, kwargs) \<and> func args kwargs w = (Inr v, w1)"
  obtain d where d: "make_dict cls range68 = Inr d"
    using make_dict_long [OF min_points_le_range68] by blast
  have got: "get k (self, w, tr) =
      (Inr v, (self\<lparr>dict := (dict self)(k \<mapsto> v)\<rparr>, w1, tr @ [FactoryCall k]))"
    using h get_builds [of self k func args kwargs w v w1 tr] by blast
  show "landmark ext img (Some []) cls upsample (self, w, tr) =
      (Inr [], (self\<lparr>dict := (dict self)(k \<mapsto> v)\<rparr>, w1, tr @ [FactoryCall k]))"
    using h got by (simp add: landmark_empty new_long [OF d] bindE_def ret_def)
qed

theorem empty_locations_probe_shape_only_witness:
  "fst (landmark example_ext [] (Some []) Shape5p 1 (example_store, 0, [])) = Inr []
   \<and> snd (snd (landmark example_ext [] (Some []) Shape5p 1 (example_store, 0, []))) =
       (Suc 0, [FactoryCall ''shape_predictor_5p''])"
proof -
  have k: "predictor_key Shape5p = Some ''shape_predictor_5p''"
    by (simp add: predictor_key_def)
  have d: "dict example_store ''shape_predictor_5p'' = None"
    by (simp add: example_store_def lazy_vars_def register_def LazyStore_init_def)
  have r: "reg example_store ''shape_predictor_5p'' =
      Some (fresh_object, [''models/shape_predictor_5_face_landmarks.dat''], [])"
    by (simp add: example_store_def lazy_vars_def register_def LazyStore_init_def example_ext_def
        path_shape_5p_def)
  have f: "fresh_object [''models/shape_predictor_5_face_landmarks.dat''] [] 0 = (Inr 0, Suc 0)"
    by (simp add: fresh_object_def)
  from empty_locations_probe_shape_only
         [where cls = Shape5p and k = "''shape_predictor_5p''" and self = example_store
            and func = fresh_object and args = "[''models/shape_predictor_5_face_landmarks.dat'']"
            and kwargs = "[]" and w = 0 and v = 0 and ?w1.0 = "Suc 0" and ext = example_ext
            and img = "[]" and upsample = 1 and tr = "[]"]
       k d r f
  have "landmark example_ext [] (Some []) Shape5p 1 (example_store, 0, []) =
      (Inr [], (example_store\<lparr>dict := (dict example_store)(''shape_predictor_5p'' \<mapsto> 0)\<rparr>,
         Suc 0, [] @ [FactoryCall ''shape_predictor_5p'']))"
    by blast
  then show ?thesis
    by simp
qed

text \<open>
  Claim C5. With \<^verbatim>\<open>locations\<close> omitted, \<^verbatim>\<open>encode\<close> runs \<^verbatim>\<open>detect\<close> with the
  upsampling count 1, whatever its other arguments are (it has no \<^verbatim>\<open>upsample\<close>
  parameter), and goes on as if called with the locations found; \<^verbatim>\<open>landmark\<close> runs
  \<^verbatim>\<open>detect\<close> with its own \<^verbatim>\<open>upsample\<close>. Once the store yields the detector, the
  detector is applied to the image with 1 by \<^verbatim>\<open>encode\<close> and with \<^verbatim>\<open>upsample\<close> by
  \<^verbatim>\<open>landmark\<close>, as the trace records.
\<close>

theorem encode_detects_with_default_upsample:
  fixes ext :: "('v, 'w, 'img, 'fod, 'enc) extern"
  shows "encode ext img None cls jitter =
       bindE (detect ext img 1) (\<lambda>locations. encode ext img (Some locations) cls jitter)
   \<and> landmark ext img None cls upsample =
       bindE (detect ext img upsample)
         (\<lambda>locations. landmark ext img (Some locations) cls upsample)
   \<and> (get ''face_detector'' st = (Inr fd, (self1, w1, tr1)) \<longrightarrow>
        encode ext img None cls jitter st =
          (case detector_call ext fd img 1 of
             Inl e \<Rightarrow> (Inl e, (self1, w1, tr1 @ [DetectorCall 1]))
           | Inr rs \<Rightarrow>
               encode ext img (Some (map rect_to_tuple rs)) cls jitter
                 (self1, w1, tr1 @ [DetectorCall 1]))
        \<and> landmark ext img None cls upsample st =
          (case detector_call ext fd img upsample of
             Inl e \<Rightarrow> (Inl e, (self1, w1, tr1 @ [DetectorCall upsample]))
           | Inr rs \<Rightarrow>
               landmark ext img (Some (map rect_to_tuple rs)) cls upsample
                 (self1, w1, tr1 @ [DetectorCall upsample])))"
proof (intro conjI impI)
  show "encode ext img None cls jitter =
       bindE (detect ext img 1) (\<lambda>locations. encode ext img (Some locations) cls jitter)"
    by (rule encode_None)
  show "landmark ext img None cls upsample =
       bindE (detect ext img upsample)
         (\<lambda>locations. landmark ext img (Some locations) cls upsample)"
    by (rule landmark_None)
next
  assume got: "get ''face_detector'' st = (Inr fd, (self1, w1, tr1))"
  show "encode ext img None cls jitter st =
          (case detector_call ext fd img 1 of
             Inl e \<Rightarrow> (Inl e, (self1, w1, tr1 @ [DetectorCall 1]))
           | Inr rs \<Rightarrow>
               encode ext img (Some (map rect_to_tuple rs)) cls jitter
                 (self1, w1, tr1 @ [DetectorCall 1]))"
    by (simp add: encode_None bindE_def detect_unfold [OF got] split: sum.splits)
  show "landmark ext img None cls upsample st =
          (case detector_call ext fd img upsample of
             Inl e \<Rightarrow> (Inl e, (self1, w1, tr1 @ [DetectorCall upsample]))
           | Inr rs \<Rightarrow>
               landmark ext img (Some (map rect_to_tuple rs)) cls upsample
                 (self1, w1, tr1 @ [DetectorCall upsample]))"
    by (simp add: landmark_None bindE_def detect_unfold [OF got] split: sum.splits)
qed

theorem encode_detects_with_default_upsample_witness:
  "encode example_ext [Rectangle 1 2 3 4] None Shape68p 5 (example_store, 0, []) =
     encode example_ext [Rectangle 1 2 3 4] (Some [(1, 2, 3, 4)]) Shape68p 5
       (example_store\<lparr>dict := (dict example_store)(''face_detector'' \<mapsto> 0)\<rparr>, Suc 0,
        [FactoryCall ''face_detector'', DetectorCall 1])
   \<and> landmark example_ext [Rectangle 1 2 3 4] None Shape68p 3 (example_store, 0, []) =
     landmark example_ext [Rectangle 1 2 3 4] (Some [(1, 2, 3, 4)]) Shape68p 3
       (example_store\<lparr>dict := (dict example_store)(''face_detector'' \<mapsto> 0)\<rparr>, Suc 0,
        [FactoryCall ''face_detector'', DetectorCall 3])"
proof -
  have d: "dict example_store ''face_detector'' = None"
    by (simp add: example_store_def lazy_vars_def register_def LazyStore_init_def)
  have r: "reg example_store ''face_detector'' = Some (fresh_object, [], [])"
    by (simp add: example_store_def lazy_vars_def register_def LazyStore_init_def example_ext_def)
  have f: "fresh_object [] [] 0 = (Inr 0, Suc 0)"
    by (simp add: fresh_object_def)
  have got: "get ''face_detector'' (example_store, 0, []) =
      (Inr 0, (example_store\<lparr>dict := (dict example_store)(''face_detector'' \<mapsto> 0)\<rparr>, Suc 0,
         [FactoryCall ''face_detector'']))"
    using get_builds [OF d r f, of "[]"] by simp
  have det: "detector_call example_ext 0 [Rectangle 1 2 3 4] u = Inr [Rectangle 1 2 3 4]" for u
    by (simp add: example_ext_def)
  from encode_detects_with_default_upsample
         [where ext = example_ext and st = "(example_store, 0, [])" and fd = 0
            and img = "[Rectangle 1 2 3 4]" and cls = Shape68p and jitter = 5 and upsample = 3
            and ?self1.0 = "example_store\<lparr>dict := (dict example_store)(''face_detector'' \<mapsto> 0)\<rparr>"
            and ?w1.0 = "Suc 0" and ?tr1.0 = "[FactoryCall ''face_detector'']"]
       got
  have "encode example_ext [Rectangle 1 2 3 4] None Shape68p 5 (example_store, 0, []) =
          (case detector_call example_ext 0 [Rectangle 1 2 3 4] 1 of
             Inl e \<Rightarrow> (Inl e,
               (example_store\<lparr>dict := (dict example_store)(''face_detector'' \<mapsto> 0)\<rparr>, Suc 0,
                [FactoryCall ''face_detector''] @ [DetectorCall 1]))
           | Inr rs \<Rightarrow>
               encode example_ext [Rectangle 1 2 3 4] (Some (map rect_to_tuple rs)) Shape68p 5
                 (example_store\<lparr>dict := (dict example_store)(''face_detector'' \<mapsto> 0)\<rparr>, Suc 0,
                  [FactoryCall ''face_detector''] @ [DetectorCall 1]))"
    and "landmark example_ext [Rectangle 1 2 3 4] None Shape68p 3 (example_store, 0, []) =
          (case detector_call example_ext 0 [Rectangle 1 2 3 4] 3 of
             Inl e \<Rightarrow> (Inl e,
               (example_store\<lparr>dict := (dict example_store)(''face_detector'' \<mapsto> 0)\<rparr>, Suc 0,
                [FactoryCall ''face_detector''] @ [DetectorCall 3]))
           | Inr rs \<Rightarrow>
               landmark example_ext [Rectangle 1 2 3 4] (Some (map rect_to_tuple rs)) Shape68p 3
                 (example_store\<lparr>dict := (dict example_store)(''face_detector'' \<mapsto> 0)\<rparr>, Suc 0,
                  [FactoryCall ''face_detector''] @ [DetectorCall 3]))"
    by blast+
  then show ?thesis
    by (simp add: det rect_to_tuple_def)
qed

lemma mapM_apply_model:
  assumes "\<And>loc. loc \<in> set L \<Longrightarrow> predictor_call ext v img (tuple_to_rect loc) = Inr (F loc)"
  shows "mapM (\<lambda>loc. apply_model ext (Some v) img loc) L (self, w, tr) =
     (Inr (map F L), (self, w, tr @ map (\<lambda>loc. PredictorCall (tuple_to_rect loc)) L))"
  using assms
proof (induction L arbitrary: tr)
  case Nil
  then show ?case by (simp add: ret_def)
next
  case (Cons loc L)
  have one: "apply_model ext (Some v) img loc (self, w, tr) =
      (Inr (F loc), (self, w, tr @ [PredictorCall (tuple_to_rect loc)]))"
    using Cons.prems [of loc] by (simp add: apply_model_def external_apply)
  have rest: "mapM (\<lambda>loc. apply_model ext (Some v) img loc) L
        (self, w, tr @ [PredictorCall (tuple_to_rect loc)]) =
      (Inr (map F L), (self, w, (tr @ [PredictorCall (tuple_to_rect loc)])
         @ map (\<lambda>loc. PredictorCall (tuple_to_rect loc)) L))"
    using Cons.prems by (intro Cons.IH) simp
  show ?case
    by (simp add: bindE_def one rest ret_def)
qed

lemma new_cached:
  assumes "predictor_key c = Some k" and "dict self k = Some v" and "make_dict c p = Inr d"
  shows "new c p (self, w, tr) =
     (Inr \<lparr>shape_class = c, points = p, shape_dict = d, model = Some v\<rparr>, (self, w, tr))"
  using assms by (simp add: new_long [OF assms(3)] bindE_def get_cached ret_def)

lemma mapM_new_cached:
  assumes "predictor_key c = Some k" and "dict self k = Some v"
    and "\<And>p. p \<in> set ps \<Longrightarrow> min_points c \<le> length p"
  shows "mapM (new c) ps (self, w, tr) =
     (Inr (map (\<lambda>p. \<lparr>shape_class = c, points = p, shape_dict = projr (make_dict c p),
                     model = Some v\<rparr>) ps), (self, w, tr))"
  using assms(3)
proof (induction ps)
  case Nil
  then show ?case by (simp add: ret_def)
next
  case (Cons p ps)
  have "min_points c \<le> length p"
    using Cons.prems by simp
  then obtain d where d: "make_dict c p = Inr d"
    using make_dict_long by blast
  have one: "new c p (self, w, tr) =
      (Inr \<lparr>shape_class = c, points = p, shape_dict = projr (make_dict c p), model = Some v\<rparr>,
       (self, w, tr))"
    using new_cached [OF assms(1,2) d] d by simp
  have rest: "mapM (new c) ps (self, w, tr) =
     (Inr (map (\<lambda>p. \<lparr>shape_class = c, points = p, shape_dict = projr (make_dict c p),
                     model = Some v\<rparr>) ps), (self, w, tr))"
    using Cons.prems by (intro Cons.IH) simp
  show ?case
    by (simp add: bindE_def one rest ret_def)
qed

lemma apply_model_Inr:
  "apply_model ext m img loc s = (Inr fod, s') \<Longrightarrow>
   \<exists>v. m = Some v \<and> predictor_call ext v img (tuple_to_rect loc) = Inr fod"
  by (cases s) (auto simp: apply_model_def raise_def external_def split: option.splits)

lemma landmark_Some:
  "landmark ext img (Some L) cls upsample =
     bindE (new cls range68) (\<lambda>shaper.
     bindE (mapM (\<lambda>loc. apply_model ext (model shaper) img loc) L) (\<lambda>shapelist.
     mapM (new cls) (map (parts ext) shapelist)))"
  by (simp add: landmark_def bindE_ret mapM_map)

text \<open>
  Claim C9. Whenever \<^verbatim>\<open>landmark(img, locations=L)\<close> returns, it returns as many
  shapes as \<open>L\<close> has locations, and the shape at position \<open>i\<close> holds the parts that
  the predictor of the probe shape returned for the rectangle of the location at
  position \<open>i\<close>. And it does return, with one shape per location in the order of
  \<open>L\<close> and one predictor call per location in that order, once the probe shape is
  built and the predictor accepts every location and yields enough points for the
  class.
\<close>

theorem landmark_one_shape_per_location:
  fixes ext :: "('v, 'w, 'img, 'fod, 'enc) extern"
    and self :: "(string, 'v, 'w) LazyStore"
  shows "(landmark ext img (Some L) cls upsample st = (Inr shapes, st') \<longrightarrow>
      length shapes = length L
      \<and> (\<exists>shaper st1. new cls range68 st = (Inr shaper, st1)
           \<and> (\<forall>i<length L. \<exists>v fod. model shaper = Some v
                 \<and> predictor_call ext v img (tuple_to_rect (L ! i)) = Inr fod
                 \<and> points (shapes ! i) = parts ext fod
                 \<and> shape_class (shapes ! i) = cls)))
   \<and> (new cls range68 (self, w, tr) = (Inr shaper0, (self1, w1, tr1))
        \<and> model shaper0 = Some v0
        \<and> (\<forall>loc\<in>set L. predictor_call ext v0 img (tuple_to_rect loc) = Inr (F loc)
              \<and> min_points cls \<le> length (parts ext (F loc))) \<longrightarrow>
      landmark ext img (Some L) cls upsample (self, w, tr) =
        (Inr (map (\<lambda>loc. \<lparr>shape_class = cls, points = parts ext (F loc),
                           shape_dict = projr (make_dict cls (parts ext (F loc))),
                           model = Some v0\<rparr>) L),
         (self1, w1, tr1 @ map (\<lambda>loc. PredictorCall (tuple_to_rect loc)) L)))"
proof (intro conjI impI)
  assume run: "landmark ext img (Some L) cls upsample st = (Inr shapes, st')"
  from run obtain shaper st1 where new: "new cls range68 st = (Inr shaper, st1)"
    by (auto simp: landmark_Some bindE_def split: prod.splits sum.splits)
  with run obtain shapelist st2 where
    preds: "mapM (\<lambda>loc. apply_model ext (model shaper) img loc) L st1 = (Inr shapelist, st2)"
    by (auto simp: landmark_Some bindE_def split: prod.splits sum.splits)
  with run new have
    builds: "mapM (new cls) (map (parts ext) shapelist) st2 = (Inr shapes, st')"
    by (simp add: landmark_Some bindE_def)
  have a: "list_all2 (\<lambda>loc fod. \<exists>v. model shaper = Some v
        \<and> predictor_call ext v img (tuple_to_rect loc) = Inr fod) L shapelist"
    using preds by (rule mapM_Inr_list_all2) (rule apply_model_Inr)
  have b: "list_all2 (\<lambda>p s. points s = p \<and> shape_class s = cls)
      (map (parts ext) shapelist) shapes"
    using builds by (rule mapM_Inr_list_all2) (simp add: new_Inr)
  from a have la: "length shapelist = length L"
    by (simp add: list_all2_lengthD)
  from b have lb: "length shapes = length shapelist"
    by (auto dest: list_all2_lengthD)
  from la lb show "length shapes = length L"
    by simp
  have "\<exists>v fod. model shaper = Some v
        \<and> predictor_call ext v img (tuple_to_rect (L ! i)) = Inr fod
        \<and> points (shapes ! i) = parts ext fod \<and> shape_class (shapes ! i) = cls"
    if i: "i < length L" for i
  proof -
    from a i obtain v where v: "model shaper = Some v"
      "predictor_call ext v img (tuple_to_rect (L ! i)) = Inr (shapelist ! i)"
      by (auto simp: list_all2_conv_all_nth)
    from b i la have "points (shapes ! i) = parts ext (shapelist ! i)"
      "shape_class (shapes ! i) = cls"
      by (auto simp: list_all2_conv_all_nth)
    with v show ?thesis
      by blast
  qed
  with new show "\<exists>shaper st1. new cls range68 st = (Inr shaper, st1)
           \<and> (\<forall>i<length L. \<exists>v fod. model shaper = Some v
                 \<and> predictor_call ext v img (tuple_to_rect (L ! i)) = Inr fod
                 \<and> points (shapes ! i) = parts ext fod
                 \<and> shape_class (shapes ! i) = cls)"
    by blast
next
  assume h: "new cls range68 (self, w, tr) = (Inr shaper0, (self1, w1, tr1))
        \<and> model shaper0 = Some v0
        \<and> (\<forall>loc\<in>set L. predictor_call ext v0 img (tuple_to_rect loc) = Inr (F loc)
              \<and> min_points cls \<le> length (parts ext (F loc)))"
  then have new: "new cls range68 (self, w, tr) = (Inr shaper0, (self1, w1, tr1))"
    and m: "model shaper0 = Some v0"
    by simp_all
  from new_Inr [OF new] m obtain k where k: "predictor_key cls = Some k"
    and got: "get k (self, w, tr) = (Inr v0, (self1, w1, tr1))"
    by (cases "predictor_key cls") auto
  from get_Inr_cached [OF got] have cached: "dict self1 k = Some v0" .
  have preds: "mapM (\<lambda>loc. apply_model ext (Some v0) img loc) L (self1, w1, tr1) =
      (Inr (map F L), (self1, w1, tr1 @ map (\<lambda>loc. PredictorCall (tuple_to_rect loc)) L))"
    using h by (intro mapM_apply_model) simp
  have builds: "mapM (new cls) (map (parts ext) (map F L))
        (self1, w1, tr1 @ map (\<lambda>loc. PredictorCall (tuple_to_rect loc)) L) =
      (Inr (map (\<lambda>p. \<lparr>shape_class = cls, points = p, shape_dict = projr (make_dict cls p),
                      model = Some v0\<rparr>) (map (parts ext) (map F L))),
       (self1, w1, tr1 @ map (\<lambda>loc. PredictorCall (tuple_to_rect loc)) L))"
    using k cached h by (intro mapM_new_cached) auto
  show "landmark ext img (Some L) cls upsample (self, w, tr) =
        (Inr (map (\<lambda>loc. \<lparr>shape_class = cls, points = parts ext (F loc),
                           shape_dict = projr (make_dict cls (parts ext (F loc))),
                           model = Some v0\<rparr>) L),
         (self1, w1, tr1 @ map (\<lambda>loc. PredictorCall (tuple_to_rect loc)) L))"
    using builds by (simp add: landmark_Some bindE_def new m preds comp_def)
qed

theorem landmark_one_shape_per_location_witness:
  "length (projr (fst (landmark example_ext [] (Some [(1, 2, 3, 4), (5, 6, 7, 8)]) Shape5p 1
      (example_store, 0, [])))) = 2
   \<and> map (\<lambda>s. hd (points s))
       (projr (fst (landmark example_ext [] (Some [(1, 2, 3, 4), (5, 6, 7, 8)]) Shape5p 1
          (example_store, 0, [])))) = [(1, 2), (5, 6)]
   \<and> snd (snd (snd (landmark example_ext [] (Some [(1, 2, 3, 4), (5, 6, 7, 8)]) Shape5p 1
          (example_store, 0, [])))) =
       [FactoryCall ''shape_predictor_5p'', PredictorCall (Rectangle 1 2 3 4),
        PredictorCall (Rectangle 5 6 7 8)]"
proof -
  let ?run = "landmark example_ext [] (Some [(1, 2, 3, 4), (5, 6, 7, 8)]) Shape5p 1
      (example_store, 0, [])"
  have "isl (fst ?run) = False"
    by code_simp
  then obtain shapes st' where run: "?run = (Inr shapes, st')"
    by (metis prod.collapse sum.collapse(2))
  from landmark_one_shape_per_location
         [where ext = example_ext and img = "[]" and L = "[(1, 2, 3, 4), (5, 6, 7, 8)]"
            and cls = Shape5p and upsample = 1 and st = "(example_store, 0, [])"
            and shapes = shapes and st' = st'] run
  have len: "length shapes = length [(1, 2, 3, 4), (5, 6, 7, 8) :: location]"
    by blast
  have hds: "map (\<lambda>s. hd (points s)) (projr (fst ?run)) = [(1, 2), (5, 6)]"
    by code_simp
  have trace: "snd (snd (snd ?run)) =
       [FactoryCall ''shape_predictor_5p'', PredictorCall (Rectangle 1 2 3 4),
        PredictorCall (Rectangle 5 6 7 8)]"
    by code_simp
  from len run hds trace show ?thesis
    by simp
qed

section \<open>The Atlas: saving, loading and the invariant\<close>

lemma update_fresh: "k \<notin> fst ` set al \<Longrightarrow> AList.update k v al = al @ [(k, v)]"
  by (induction al) auto

lemma fold_update_fresh:
  "distinct (map fst xs) \<Longrightarrow> fst ` set xs \<inter> fst ` set ys = {} \<Longrightarrow>
   fold (\<lambda>(k, x). AList.update k x) xs ys = ys @ xs"
proof (induction xs arbitrary: ys)
  case Nil
  then show ?case by simp
next
  case (Cons a xs)
  obtain k v where a: "a = (k, v)"
    by (cases a)
  have fresh: "k \<notin> fst ` set ys"
    using Cons.prems(2) a by auto
  have "fold (\<lambda>(k, x). AList.update k x) xs (ys @ [(k, v)]) = (ys @ [(k, v)]) @ xs"
    using Cons.prems a by (intro Cons.IH) auto
  then show ?case
    by (simp add: a update_fresh [OF fresh])
qed

lemma fold_update_empty:
  "distinct (map fst xs) \<Longrightarrow> fold (\<lambda>(k, x). AList.update k x) xs [] = xs"
  using fold_update_fresh [of xs "[]"] by simp

lemma distinct_fold_update:
  "distinct (map fst d) \<Longrightarrow> distinct (map fst (fold (\<lambda>(k, x). AList.update k x) xs d))"
  by (induction xs arbitrary: d) (auto simp: distinct_update)

lemma distinct_update_pairs:
  "distinct (map fst d) \<Longrightarrow> distinct (map fst (snd (update_pairs items d)))"
  by (induction items d rule: update_pairs.induct)
     (auto simp: distinct_update split: sum.splits list.splits)

lemma distinct_py_update:
  "distinct (map fst d) \<Longrightarrow> distinct (map fst (snd (py_update v d)))"
  by (cases v) (auto simp: py_update_def distinct_fold_update distinct_update_pairs
      split: sum.splits)

lemma distinct_Atlas_init: "distinct (map fst (Atlas_init dbscan elements path))"
  by (simp add: Atlas_init_def)

lemma atlas_invariant_init: "atlas_invariant (Atlas_init dbscan elements path)"
  by (simp add: atlas_invariant_def getattr_def Atlas_init_def)

lemma Atlas_load_cases:
  "Atlas_load pk self fs = (r, self') \<Longrightarrow>
   (self' = self \<and> isl r) \<or>
   (\<exists>p content v. getattr self ''path'' = Inr (PyStr p) \<and> files fs p = Some content
      \<and> pickle_load pk content = Inr v \<and> (r, self') = py_update v [])"
  by (auto simp: Atlas_load_def open_rb_def split: sum.splits pyval.splits option.splits)

lemma Atlas_save_cases:
  "Atlas_save pk self fs = (r, fs') \<Longrightarrow>
   (fs' = fs \<and> isl r) \<or>
   (\<exists>p written e. getattr self ''path'' = Inr (PyStr p) \<and> writable fs p
      \<and> pickle_dump pk (PyDict self) = (written, e)
      \<and> fs' = fs\<lparr>files := (files fs)(p \<mapsto> written)\<rparr>
      \<and> r = (case e of None \<Rightarrow> Inr () | Some err \<Rightarrow> Inl err))"
  by (auto simp: Atlas_save_def open_wb_def
      split: sum.splits pyval.splits option.splits prod.splits if_splits)

lemma example_pickle_roundtrip: "pickle_roundtrip example_pickle"
  by (auto simp: pickle_roundtrip_def example_pickle_def split: pyval.splits)

lemma example_pickle_failed_dump: "failed_dump_unreadable example_pickle"
  by (auto simp: failed_dump_unreadable_def example_pickle_def split: pyval.splits)

text \<open>
  Claim C8. Let \<open>A\<close> be an Atlas (a \<^verbatim>\<open>__dict__\<close>, so with distinct keys) whose
  \<^verbatim>\<open>save()\<close> returns, and let \<^verbatim>\<open>pickle.load\<close> give back what \<^verbatim>\<open>pickle.dump\<close>
  wrote. Then \<^verbatim>\<open>load()\<close> on a fresh Atlas constructed with the same path, whatever
  its elements, returns and leaves that Atlas with exactly the state of \<open>A\<close>: the same
  \<^verbatim>\<open>elements\<close>, \<^verbatim>\<open>clusters\<close>, \<^verbatim>\<open>groups\<close> and \<^verbatim>\<open>grouped\<close>, and every
  other attribute.
\<close>

theorem save_then_load_roundtrip:
  assumes "pickle_roundtrip pk"
    and "distinct (map fst A)"
    and "getattr A ''path'' = Inr path"
    and "Atlas_save pk A fs = (Inr (), fs')"
  shows "Atlas_load pk (Atlas_init dbscan elements path) fs' = (Inr (), A)
       \<and> getattr (snd (Atlas_load pk (Atlas_init dbscan elements path) fs')) ''elements'' =
           getattr A ''elements''
       \<and> getattr (snd (Atlas_load pk (Atlas_init dbscan elements path) fs')) ''clusters'' =
           getattr A ''clusters''
       \<and> getattr (snd (Atlas_load pk (Atlas_init dbscan elements path) fs')) ''groups'' =
           getattr A ''groups''
       \<and> getattr (snd (Atlas_load pk (Atlas_init dbscan elements path) fs')) ''grouped'' =
           getattr A ''grouped''"
proof -
  from Atlas_save_cases [OF assms(4)] obtain p written e where
    p: "getattr A ''path'' = Inr (PyStr p)"
    and dump: "pickle_dump pk (PyDict A) = (written, e)"
    and fs': "fs' = fs\<lparr>files := (files fs)(p \<mapsto> written)\<rparr>"
    and r: "Inr () = (case e of None \<Rightarrow> Inr () | Some err \<Rightarrow> Inl err)"
    by auto
  from r have "e = None"
    by (cases e) simp_all
  with dump assms(1) have load: "pickle_load pk written = Inr (PyDict A)"
    by (simp add: pickle_roundtrip_def)
  from p assms(3) have path: "path = PyStr p"
    by simp
  have "getattr (Atlas_init dbscan elements path) ''path'' = Inr (PyStr p)"
    by (simp add: getattr_def Atlas_init_def path)
  then have "Atlas_load pk (Atlas_init dbscan elements path) fs' = (Inr (), A)"
    by (simp add: Atlas_load_def open_rb_def fs' load py_update_def
        fold_update_empty [OF assms(2)])
  then show ?thesis
    by simp
qed

theorem save_then_load_roundtrip_witness:
  "Atlas_load example_pickle (Atlas_init PyNone (PyList []) (PyStr ''atlas.pkl''))
     (snd (Atlas_save example_pickle grouped_atlas empty_fs)) = (Inr (), grouped_atlas)
   \<and> getattr grouped_atlas ''grouped'' = Inr (PyBool True)
   \<and> getattr grouped_atlas ''elements'' = Inr (PyList [PyInt 7, PyInt 8])"
proof -
  have d: "distinct (map fst grouped_atlas)"
    by (simp add: grouped_atlas_def distinct_update distinct_Atlas_init)
  have p: "getattr grouped_atlas ''path'' = Inr (PyStr ''atlas.pkl'')"
    by (simp add: grouped_atlas_def getattr_def Atlas_init_def)
  have "fst (Atlas_save example_pickle grouped_atlas empty_fs) = Inr ()"
    by (simp add: Atlas_save_def p open_wb_def empty_fs_def example_pickle_def)
  then have s: "Atlas_save example_pickle grouped_atlas empty_fs =
      (Inr (), snd (Atlas_save example_pickle grouped_atlas empty_fs))"
    by (metis prod.collapse)
  have g: "getattr grouped_atlas ''grouped'' = Inr (PyBool True)"
    "getattr grouped_atlas ''elements'' = Inr (PyList [PyInt 7, PyInt 8])"
    by (simp_all add: grouped_atlas_def getattr_def Atlas_init_def)
  from save_then_load_roundtrip [OF example_pickle_roundtrip d p s, of PyNone "PyList []"] g
  show ?thesis
    by simp
qed

text \<open>
  Against claim C10 as stated: \<^verbatim>\<open>load()\<close> can fail after it has cleared
  \<^verbatim>\<open>__dict__\<close>. An Atlas with seven attributes that loads a file holding the
  pickled integer 42 unpickles it, clears \<^verbatim>\<open>__dict__\<close>, and raises
  \<^verbatim>\<open>TypeError\<close> in \<^verbatim>\<open>update\<close>: it is left with no attribute at all.
\<close>

theorem load_of_unpickled_integer_clears:
  "Atlas_load example_pickle grouped_atlas integer_fs = (Inl TypeError, [])
   \<and> length grouped_atlas = 7
   \<and> getattr grouped_atlas ''grouped'' = Inr (PyBool True)
   \<and> getattr (snd (Atlas_load example_pickle grouped_atlas integer_fs)) ''grouped'' =
       Inl AttributeError"
  by (simp add: Atlas_load_def grouped_atlas_def getattr_def Atlas_init_def open_rb_def
      integer_fs_def example_pickle_def py_update_def)

text \<open>
  Claim C10, amended. \<^verbatim>\<open>load()\<close> is atomic for the failures that come before
  \<^verbatim>\<open>__dict__.clear()\<close>, not for all: when the file at the Atlas's path is absent
  it raises \<^verbatim>\<open>FileNotFoundError\<close>, and when \<^verbatim>\<open>pickle.load\<close> raises on the
  content it raises the same, both with the instance left exactly as it was. When the
  content unpickles, \<^verbatim>\<open>load()\<close> is the update of an empty \<^verbatim>\<open>__dict__\<close> with the
  unpickled value: if that value is not iterable it raises \<^verbatim>\<open>TypeError\<close> and leaves
  the instance without attributes. Every failing \<^verbatim>\<open>load()\<close> either leaves the
  instance as it was, or is such a failed update of the emptied \<^verbatim>\<open>__dict__\<close>.
\<close>

theorem load_failure_before_or_after_clear:
  assumes "getattr self ''path'' = Inr (PyStr p)"
  shows "(files fs p = None \<longrightarrow> Atlas_load pk self fs = (Inl FileNotFoundError, self))
       \<and> (files fs p = Some content \<and> pickle_load pk content = Inl e \<longrightarrow>
            Atlas_load pk self fs = (Inl e, self))
       \<and> (files fs p = Some content \<and> pickle_load pk content = Inr v \<longrightarrow>
            Atlas_load pk self fs = py_update v [])
       \<and> (files fs p = Some content \<and> pickle_load pk content = Inr v \<and> isl (py_iter v) \<longrightarrow>
            Atlas_load pk self fs = (Inl TypeError, []))
       \<and> (Atlas_load pk self fs = (Inl e', self') \<longrightarrow>
            self' = self
            \<or> (\<exists>content' v'. files fs p = Some content' \<and> pickle_load pk content' = Inr v'
                  \<and> py_update v' [] = (Inl e', self')))"
proof (intro conjI impI)
  assume "files fs p = None"
  with assms show "Atlas_load pk self fs = (Inl FileNotFoundError, self)"
    by (simp add: Atlas_load_def open_rb_def)
next
  assume "files fs p = Some content \<and> pickle_load pk content = Inl e"
  with assms show "Atlas_load pk self fs = (Inl e, self)"
    by (simp add: Atlas_load_def open_rb_def)
next
  assume "files fs p = Some content \<and> pickle_load pk content = Inr v"
  with assms show "Atlas_load pk self fs = py_update v []"
    by (simp add: Atlas_load_def open_rb_def)
next
  assume h: "files fs p = Some content \<and> pickle_load pk content = Inr v \<and> isl (py_iter v)"
  then have "py_update v [] = (Inl TypeError, [])"
    by (cases v) (simp_all add: py_update_def)
  with assms h show "Atlas_load pk self fs = (Inl TypeError, [])"
    by (simp add: Atlas_load_def open_rb_def)
next
  assume fails: "Atlas_load pk self fs = (Inl e', self')"
  from Atlas_load_cases [OF fails] assms
  show "self' = self
      \<or> (\<exists>content' v'. files fs p = Some content' \<and> pickle_load pk content' = Inr v'
            \<and> py_update v' [] = (Inl e', self'))"
    by auto
qed

theorem load_failure_before_or_after_clear_witness:
  "Atlas_load example_pickle grouped_atlas empty_fs = (Inl FileNotFoundError, grouped_atlas)
   \<and> Atlas_load example_pickle grouped_atlas corrupt_fs = (Inl PickleError, grouped_atlas)
   \<and> Atlas_load example_pickle grouped_atlas integer_fs = py_update (PyInt 42) []
   \<and> snd (Atlas_load example_pickle grouped_atlas integer_fs) = []"
proof -
  have p: "getattr grouped_atlas ''path'' = Inr (PyStr ''atlas.pkl'')"
    by (simp add: grouped_atlas_def getattr_def Atlas_init_def)
  have a: "files empty_fs ''atlas.pkl'' = None"
    by (simp add: empty_fs_def)
  have b: "files corrupt_fs ''atlas.pkl'' = Some None
      \<and> pickle_load example_pickle None = Inl PickleError"
    by (simp add: corrupt_fs_def example_pickle_def)
  have c: "files integer_fs ''atlas.pkl'' = Some (Some (PyInt 42))
      \<and> pickle_load example_pickle (Some (PyInt 42)) = Inr (PyInt 42)"
    by (simp add: integer_fs_def example_pickle_def)
  have c': "files integer_fs ''atlas.pkl'' = Some (Some (PyInt 42))
      \<and> pickle_load example_pickle (Some (PyInt 42)) = Inr (PyInt 42) \<and> isl (py_iter (PyInt 42))"
    using c by simp
  from load_failure_before_or_after_clear
         [OF p, where fs = empty_fs and pk = example_pickle] a
  have 1: "Atlas_load example_pickle grouped_atlas empty_fs = (Inl FileNotFoundError, grouped_atlas)"
    by blast
  from load_failure_before_or_after_clear
         [OF p, where fs = corrupt_fs and content = None and pk = example_pickle
            and e = PickleError] b
  have 2: "Atlas_load example_pickle grouped_atlas corrupt_fs = (Inl PickleError, grouped_atlas)"
    by blast
  from load_failure_before_or_after_clear
         [OF p, where fs = integer_fs and content = "Some (PyInt 42)" and pk = example_pickle
            and v = "PyInt 42"] c c'
  have 3: "Atlas_load example_pickle grouped_atlas integer_fs = py_update (PyInt 42) []"
    and 4: "Atlas_load example_pickle grouped_atlas integer_fs = (Inl TypeError, [])"
    by blast+
  from 4 have 5: "snd (Atlas_load example_pickle grouped_atlas integer_fs) = []"
    by simp
  from 1 2 3 5 show ?thesis
    by blast
qed

text \<open>
  Against claim C7 as stated: \<^verbatim>\<open>load\<close> checks nothing. A freshly constructed
  Atlas that loads a file holding the pickled dict
  \<^verbatim>\<open>{"grouped": True, "groups": None}\<close> has \<^verbatim>\<open>grouped == True\<close> and
  \<^verbatim>\<open>groups is None\<close>.
\<close>

theorem load_of_foreign_file_breaks_invariant:
  "fst (run example_pickle [Load]
      (Atlas_init example_dbscan (PyList []) (PyStr ''atlas.pkl''), foreign_fs)) =
     [(PyStr ''grouped'', PyBool True), (PyStr ''groups'', PyNone)]
   \<and> atlas_invariant (fst (run example_pickle [Load]
      (Atlas_init example_dbscan (PyList []) (PyStr ''atlas.pkl''), foreign_fs))) = False"
  by (simp add: run_def Atlas_load_def getattr_def Atlas_init_def open_rb_def foreign_fs_def
      example_pickle_def py_update_def atlas_invariant_def)

lemma step_inv_state:
  assumes rt: "pickle_roundtrip pk" and fd: "failed_dump_unreadable pk"
    and inv: "inv_state pk s"
  shows "inv_state pk (step pk op s)"
proof -
  obtain self fs where s: "s = (self, fs)"
    by (cases s)
  from inv s have d: "distinct (map fst self)" and ai: "atlas_invariant self"
    and gf: "good_files pk fs"
    by (simp_all add: inv_state_def)
  show ?thesis
  proof (cases op)
    case (Construct dbscan elements path)
    with s gf show ?thesis
      by (simp add: inv_state_def distinct_Atlas_init atlas_invariant_init)
  next
    case Group
    with s d ai gf show ?thesis
      by (simp add: inv_state_def Atlas_group_def)
  next
    case Save
    obtain r fs' where sv: "Atlas_save pk self fs = (r, fs')"
      by (cases "Atlas_save pk self fs")
    have "good_files pk fs'"
      using Atlas_save_cases [OF sv]
    proof
      assume "fs' = fs \<and> isl r"
      with gf show ?thesis by simp
    next
      assume "\<exists>p written e. getattr self ''path'' = Inr (PyStr p) \<and> writable fs p
        \<and> pickle_dump pk (PyDict self) = (written, e)
        \<and> fs' = fs\<lparr>files := (files fs)(p \<mapsto> written)\<rparr>
        \<and> r = (case e of None \<Rightarrow> Inr () | Some err \<Rightarrow> Inl err)"
      then obtain p written e where dump: "pickle_dump pk (PyDict self) = (written, e)"
        and fs': "fs' = fs\<lparr>files := (files fs)(p \<mapsto> written)\<rparr>"
        by blast
      have "good_snapshot pk written"
      proof (cases e)
        case None
        with dump rt have "pickle_load pk written = Inr (PyDict self)"
          by (simp add: pickle_roundtrip_def)
        with ai d show ?thesis
          by (simp add: good_snapshot_def py_update_def fold_update_empty)
      next
        case (Some err)
        with dump fd have "isl (pickle_load pk written)"
          by (auto simp: failed_dump_unreadable_def)
        then show ?thesis
          by (auto simp: good_snapshot_def split: sum.splits)
      qed
      with gf fs' show ?thesis
        by (simp add: good_files_def)
    qed
    with Save s sv d ai show ?thesis
      by (simp add: inv_state_def)
  next
    case Load
    obtain r self' where ld: "Atlas_load pk self fs = (r, self')"
      by (cases "Atlas_load pk self fs")
    have "distinct (map fst self') \<and> atlas_invariant self'"
      using Atlas_load_cases [OF ld]
    proof
      assume "self' = self \<and> isl r"
      with d ai show ?thesis by simp
    next
      assume "\<exists>p content v. getattr self ''path'' = Inr (PyStr p) \<and> files fs p = Some content
        \<and> pickle_load pk content = Inr v \<and> (r, self') = py_update v []"
      then obtain p content v where f: "files fs p = Some content"
        and l: "pickle_load pk content = Inr v" and u: "(r, self') = py_update v []"
        by blast
      from gf f have "good_snapshot pk content"
        by (simp add: good_files_def)
      with l have "atlas_invariant (snd (py_update v []))"
        by (simp add: good_snapshot_def)
      moreover have "distinct (map fst (snd (py_update v [])))"
        by (rule distinct_py_update) simp
      moreover from u have "snd (py_update v []) = self'"
        by (metis snd_conv)
      ultimately show ?thesis
        by simp
    qed
    with Load s ld gf show ?thesis
      by (simp add: inv_state_def)
  qed
qed

lemma run_inv_state:
  assumes "pickle_roundtrip pk" and "failed_dump_unreadable pk"
  shows "inv_state pk s \<Longrightarrow> inv_state pk (run pk ops s)"
  unfolding run_def
  by (induction ops arbitrary: s) (simp_all add: step_inv_state [OF assms])

text \<open>
  Claim C7, amended. Start from a file system in which every file is a good snapshot
  (one that \<^verbatim>\<open>pickle.load\<close> rejects, or that unpickles to a state satisfying the
  invariant; an empty file system, say), with a \<^verbatim>\<open>pickle\<close> that loads what it
  dumped and rejects what a failed dump left. Then after any sequence of constructions
  and calls of \<^verbatim>\<open>group\<close>, \<^verbatim>\<open>save\<close> and \<^verbatim>\<open>load\<close>, failed calls included, the
  Atlas at hand satisfies \<^verbatim>\<open>grouped == True\<close> iff \<^verbatim>\<open>groups is not None\<close>.
\<close>

theorem atlas_invariant_reachable:
  assumes "pickle_roundtrip pk" and "failed_dump_unreadable pk" and "good_files pk fs0"
  shows "atlas_invariant (fst (run pk ops (Atlas_init dbscan elements path, fs0)))"
proof -
  have "inv_state pk (Atlas_init dbscan elements path, fs0)"
    using assms(3) by (simp add: inv_state_def distinct_Atlas_init atlas_invariant_init)
  then have "inv_state pk (run pk ops (Atlas_init dbscan elements path, fs0))"
    by (rule run_inv_state [OF assms(1,2)])
  then show ?thesis
    by (simp add: inv_state_def)
qed

theorem atlas_invariant_reachable_witness:
  "atlas_invariant (fst (run example_pickle
      [Save, Construct example_dbscan PyNone (PyStr ''atlas.pkl''), Load, Group]
      (Atlas_init example_dbscan (PyList [PyInt 7]) (PyStr ''atlas.pkl''), empty_fs)))"
proof -
  have "good_files example_pickle empty_fs"
    by (simp add: good_files_def empty_fs_def)
  then show ?thesis
    by (rule atlas_invariant_reachable [OF example_pickle_roundtrip example_pickle_failed_dump])
qed

end
